theory Spec2Isabelle
  imports Complex_Main
begin

section \<open>Arrays\<close>

text \<open>
  The estimator of \<^verbatim>\<open>models/cmf.py\<close> works on dense numpy arrays. A one-dimensional
  array is a list of reals and a two-dimensional array is the list of its rows; the
  entries are real numbers, so \<^verbatim>\<open>np.exp\<close> is \<open>exp\<close>, \<^verbatim>\<open>np.log\<close> is \<open>ln\<close> (on positive
  arguments) and the rounding of IEEE doubles is not part of the model. numpy raises on
  operands whose shapes do not fit and a list of rows with no row has lost its number
  of columns, so the functions below stand for the numpy operations on arrays of fitting
  shapes with positive dimensions; every theorem states the shapes it is about.
\<close>

type_synonym vec = "real list"
type_synonym mat = "real list list"
type_synonym ten = "real list list list"

definition is_vec :: "nat \<Rightarrow> vec \<Rightarrow> bool" where
  "is_vec n v \<longleftrightarrow> length v = n"

definition is_mat :: "nat \<Rightarrow> nat \<Rightarrow> mat \<Rightarrow> bool" where
  "is_mat r c A \<longleftrightarrow> length A = r \<and> list_all (\<lambda>row. length row = c) A"

definition ncols :: "mat \<Rightarrow> nat" where
  "ncols A = (case A of [] \<Rightarrow> 0 | r # _ \<Rightarrow> length r)"

text \<open>\<^verbatim>\<open>A[:, j]\<close>\<close>

definition column :: "mat \<Rightarrow> nat \<Rightarrow> vec" where
  "column A j = map (\<lambda>r. r ! j) A"

text \<open>\<^verbatim>\<open>A.T\<close>\<close>

definition mat_T :: "mat \<Rightarrow> mat" where
  "mat_T A = map (column A) [0..<ncols A]"

text \<open>\<^verbatim>\<open>np.dot(a, b)\<close> of two vectors, of a matrix and a vector, of two matrices\<close>

definition vdot :: "vec \<Rightarrow> vec \<Rightarrow> real" where
  "vdot a b = sum_list (map2 (*) a b)"

definition mvdot :: "mat \<Rightarrow> vec \<Rightarrow> vec" where
  "mvdot A b = map (\<lambda>r. vdot r b) A"

definition dot :: "mat \<Rightarrow> mat \<Rightarrow> mat" where
  "dot A B = map (\<lambda>r. map (vdot r) (mat_T B)) A"

text \<open>Elementwise operations on arrays of one shape, and with a scalar\<close>

definition mat_map :: "(real \<Rightarrow> real) \<Rightarrow> mat \<Rightarrow> mat" where
  "mat_map f A = map (map f) A"

definition mat_add :: "mat \<Rightarrow> mat \<Rightarrow> mat" where
  "mat_add A B = map2 (map2 (+)) A B"

definition mat_sub :: "mat \<Rightarrow> mat \<Rightarrow> mat" where
  "mat_sub A B = map2 (map2 (-)) A B"

definition mat_mul :: "mat \<Rightarrow> mat \<Rightarrow> mat" where
  "mat_mul A B = map2 (map2 (*)) A B"

definition mat_div :: "mat \<Rightarrow> mat \<Rightarrow> mat" where
  "mat_div A B = map2 (map2 (/)) A B"

definition vec_sub :: "vec \<Rightarrow> vec \<Rightarrow> vec" where
  "vec_sub a b = map2 (-) a b"

definition vec_add :: "vec \<Rightarrow> vec \<Rightarrow> vec" where
  "vec_add a b = map2 (+) a b"

definition vec_div :: "vec \<Rightarrow> vec \<Rightarrow> vec" where
  "vec_div a b = map2 (/) a b"

definition vec_scale :: "real \<Rightarrow> vec \<Rightarrow> vec" where
  "vec_scale c a = map (\<lambda>x. c * x) a"

text \<open>\<^verbatim>\<open>v[np.newaxis, :] + A\<close> and \<^verbatim>\<open>A * v[np.newaxis, :]\<close>: the vector meets every row\<close>

definition add_row :: "vec \<Rightarrow> mat \<Rightarrow> mat" where
  "add_row v A = map (\<lambda>row. map2 (+) v row) A"

definition mul_row :: "mat \<Rightarrow> vec \<Rightarrow> mat" where
  "mul_row A v = map (\<lambda>row. map2 (*) row v) A"

text \<open>\<^verbatim>\<open>v[:, np.newaxis] * A\<close>: entry \<open>i\<close> of the vector meets row \<open>i\<close>\<close>

definition mul_col :: "vec \<Rightarrow> mat \<Rightarrow> mat" where
  "mul_col v A = map2 (\<lambda>x row. map (\<lambda>y. x * y) row) v A"

text \<open>\<^verbatim>\<open>np.outer(a, b)\<close>\<close>

definition outer :: "vec \<Rightarrow> vec \<Rightarrow> mat" where
  "outer a b = map (\<lambda>x. map (\<lambda>y. x * y) b) a"

text \<open>\<^verbatim>\<open>np.sum(A)\<close>, \<^verbatim>\<open>np.sum(A, axis=0)\<close>, \<^verbatim>\<open>np.sum(A, axis=1)\<close>\<close>

definition mat_sum :: "mat \<Rightarrow> real" where
  "mat_sum A = sum_list (map sum_list A)"

definition sum_axis0 :: "mat \<Rightarrow> vec" where
  "sum_axis0 A = map (\<lambda>j. sum_list (column A j)) [0..<ncols A]"

definition sum_axis1 :: "mat \<Rightarrow> vec" where
  "sum_axis1 A = map sum_list A"

text \<open>
  \<^verbatim>\<open>G[:, :, np.newaxis] * B\<close> for \<open>G\<close> of shape \<open>(p, q)\<close> and \<open>B\<close> of shape \<open>(q, r)\<close>:
  the array of shape \<open>(p, q, r)\<close> with entries \<open>G[i, j] * B[j, n]\<close>.
\<close>

definition bcast_mul3 :: "mat \<Rightarrow> mat \<Rightarrow> ten" where
  "bcast_mul3 G B = map (\<lambda>grow. map2 (\<lambda>x brow. map (\<lambda>y. x * y) brow) grow B) G"

text \<open>\<^verbatim>\<open>T - w\<close> for \<open>T\<close> of shape \<open>(p, q, r)\<close> and \<open>w\<close> of length \<open>r\<close>: \<open>w\<close> is taken from every \<open>T[i, j, :]\<close>\<close>

definition sub_last3 :: "ten \<Rightarrow> vec \<Rightarrow> ten" where
  "sub_last3 T w = map (map (\<lambda>r. map2 (-) r w)) T"

text \<open>\<^verbatim>\<open>np.sum(T, axis=(0,1))\<close>\<close>

definition sum_axes01 :: "ten \<Rightarrow> vec" where
  "sum_axes01 T = sum_axis0 (map sum_axis0 T)"

text \<open>\<^verbatim>\<open>np.tile(v, (n, 1))\<close>\<close>

definition tile_rows :: "vec \<Rightarrow> nat \<Rightarrow> mat" where
  "tile_rows v n = replicate n v"

section \<open>IEEE values\<close>

text \<open>
  A double is a finite value, one of the two infinities or NaN. The operations follow
  IEEE 754 on the special values. On finite values a result is delivered by \<open>rnd\<close>: a
  magnitude of at least \<open>overflow_at\<close>, which is 2 to the power 1024 less 2 to the power
  970 (half a unit in the last place above the largest double), is an infinity; a
  magnitude of at most \<open>underflow_at\<close>, which is 2 to the power -1075 (half the smallest
  subnormal), is zero; every other value is kept as it is: the rounding to 53 bits is
  not modelled. Zeros have no sign: a zero divisor counts as \<open>+0\<close>. numpy returns an
  infinity or NaN where Python's own floats would raise, and raises nothing.
\<close>

datatype fl = Fin real | PInf | NInf | NaN

definition overflow_at :: real where
  "overflow_at = 2 ^ 1024 - 2 ^ 970"

definition underflow_at :: real where
  "underflow_at = 1 / 2 ^ 1075"

definition rnd :: "real \<Rightarrow> fl" where
  "rnd x = (if overflow_at \<le> \<bar>x\<bar> then (if 0 < x then PInf else NInf)
            else if \<bar>x\<bar> \<le> underflow_at then Fin 0 else Fin x)"

fun fl_add :: "fl \<Rightarrow> fl \<Rightarrow> fl" where
  "fl_add NaN _ = NaN"
| "fl_add _ NaN = NaN"
| "fl_add (Fin a) (Fin b) = rnd (a + b)"
| "fl_add (Fin a) PInf = PInf"
| "fl_add (Fin a) NInf = NInf"
| "fl_add PInf NInf = NaN"
| "fl_add PInf _ = PInf"
| "fl_add NInf PInf = NaN"
| "fl_add NInf _ = NInf"

fun fl_sub :: "fl \<Rightarrow> fl \<Rightarrow> fl" where
  "fl_sub NaN _ = NaN"
| "fl_sub _ NaN = NaN"
| "fl_sub (Fin a) (Fin b) = rnd (a - b)"
| "fl_sub (Fin a) PInf = NInf"
| "fl_sub (Fin a) NInf = PInf"
| "fl_sub PInf PInf = NaN"
| "fl_sub PInf _ = PInf"
| "fl_sub NInf NInf = NaN"
| "fl_sub NInf _ = NInf"

fun fl_mul :: "fl \<Rightarrow> fl \<Rightarrow> fl" where
  "fl_mul NaN _ = NaN"
| "fl_mul _ NaN = NaN"
| "fl_mul (Fin a) (Fin b) = rnd (a * b)"
| "fl_mul (Fin a) PInf = (if a = 0 then NaN else if 0 < a then PInf else NInf)"
| "fl_mul (Fin a) NInf = (if a = 0 then NaN else if 0 < a then NInf else PInf)"
| "fl_mul PInf (Fin b) = (if b = 0 then NaN else if 0 < b then PInf else NInf)"
| "fl_mul NInf (Fin b) = (if b = 0 then NaN else if 0 < b then NInf else PInf)"
| "fl_mul PInf PInf = PInf"
| "fl_mul PInf NInf = NInf"
| "fl_mul NInf PInf = NInf"
| "fl_mul NInf NInf = PInf"

fun fl_div :: "fl \<Rightarrow> fl \<Rightarrow> fl" where
  "fl_div NaN _ = NaN"
| "fl_div _ NaN = NaN"
| "fl_div (Fin a) (Fin b) =
     (if b = 0 then (if a = 0 then NaN else if 0 < a then PInf else NInf) else rnd (a / b))"
| "fl_div (Fin a) _ = Fin 0"
| "fl_div PInf (Fin b) = (if 0 \<le> b then PInf else NInf)"
| "fl_div NInf (Fin b) = (if 0 \<le> b then NInf else PInf)"
| "fl_div _ _ = NaN"

fun fl_abs :: "fl \<Rightarrow> fl" where
  "fl_abs (Fin a) = Fin \<bar>a\<bar>"
| "fl_abs PInf = PInf"
| "fl_abs NInf = PInf"
| "fl_abs NaN = NaN"

fun fl_exp :: "fl \<Rightarrow> fl" where
  "fl_exp (Fin a) = rnd (exp a)"
| "fl_exp PInf = PInf"
| "fl_exp NInf = Fin 0"
| "fl_exp NaN = NaN"

fun fl_log :: "fl \<Rightarrow> fl" where
  "fl_log (Fin a) = (if a < 0 then NaN else if a = 0 then NInf else rnd (ln a))"
| "fl_log PInf = PInf"
| "fl_log NInf = NaN"
| "fl_log NaN = NaN"

fun fl_less :: "fl \<Rightarrow> fl \<Rightarrow> bool" where
  "fl_less NaN _ = False"
| "fl_less _ NaN = False"
| "fl_less (Fin a) (Fin b) = (a < b)"
| "fl_less (Fin a) PInf = True"
| "fl_less (Fin a) NInf = False"
| "fl_less PInf _ = False"
| "fl_less NInf NInf = False"
| "fl_less NInf _ = True"

section \<open>The parameter store and the hyperparameters\<close>

text \<open>
  The constructor's arguments, with \<open>c0\<close> and \<open>sigma\<close> of \<^verbatim>\<open>_parse_kwargs\<close>. The counts
  are natural numbers: \<^verbatim>\<open>range\<close> of a count below one is empty. The tolerance is
  compared with the change of the bound and may be any IEEE value. \<^verbatim>\<open>random_state\<close>
  only seeds numpy's generator, whose draws are an input of the model (see \<open>draws\<close>
  below).
\<close>

record cmf_params =
  K :: nat
  m :: nat
  num_steps :: nat
  step_size :: real
  max_iters :: nat
  tolerance :: fl
  smoothness :: real
  verbose :: bool
  c0 :: real
  sigma :: real

text \<open>
  \<^verbatim>\<open>scipy.special.psi\<close> (the digamma function) and \<^verbatim>\<open>scipy.special.gammaln\<close> are
  library functions from outside the repository; the model takes them as parameters.
\<close>

record special =
  psi :: "real \<Rightarrow> real"
  gammaln :: "real \<Rightarrow> real"

text \<open>The attributes that \<^verbatim>\<open>fit\<close> and the update methods assign on the instance.\<close>

record pstore =
  g :: mat
  h :: mat
  Eb :: mat
  Elogb :: mat
  l :: mat
  u :: mat
  alpha :: vec

section \<open>The update methods\<close>

text \<open>
  \<^verbatim>\<open>def _compute_expectations(a, b):
      Ex = a / b
      Elogx = special.psi(a) - np.log(b)
      return Ex, Elogx\<close>
\<close>

definition compute_expectations :: "special \<Rightarrow> mat \<Rightarrow> mat \<Rightarrow> mat \<times> mat" where
  "compute_expectations sp a b =
     (let Ex' = mat_div a b;
          Elogx' = mat_sub (mat_map (psi sp) a) (mat_map ln b)
      in (Ex', Elogx'))"

text \<open>\<^verbatim>\<open>self.alpha[np.newaxis, :] + np.dot(self.l, self.u.T)\<close>, as every method computes it\<close>

definition theta_of :: "pstore \<Rightarrow> mat" where
  "theta_of s = add_row (alpha s) (dot (l s) (mat_T (u s)))"

text \<open>
  \<^verbatim>\<open>def _auxsum(self, theta):
      return np.dot(np.exp(self.Elogb), np.exp(theta))\<close>
\<close>

definition auxsum :: "pstore \<Rightarrow> mat \<Rightarrow> mat" where
  "auxsum s theta = dot (mat_map exp (Elogb s)) (mat_map exp theta)"

text \<open>
  \<^verbatim>\<open>def _update_alpha(self, X):
      self.alpha = np.log(np.sum(X, axis=0)) - np.log(np.sum(
          self.Eb[:, :, np.newaxis] * np.exp(np.dot(self.l, self.u.T)), axis=(0,1)))\<close>
\<close>

definition update_alpha :: "mat \<Rightarrow> pstore \<Rightarrow> pstore" where
  "update_alpha X s =
     s\<lparr>alpha := vec_sub (map ln (sum_axis0 X))
                  (map ln (sum_axes01 (bcast_mul3 (Eb s) (mat_map exp (dot (l s) (mat_T (u s)))))))\<rparr>"

text \<open>
  \<^verbatim>\<open>def _update_beta(self, X):
      V = X.shape[0]
      theta = self.alpha[np.newaxis, :] + np.dot(self.l, self.u.T)
      xauxsum = X / self._auxsum(theta)
      self.g = self.c0 / V + np.exp(self.Elogb) * np.dot(xauxsum, np.exp(theta).T)
      self.h = np.tile(self.c0 + np.sum(np.exp(theta), axis=1), (V, 1))
      self.Eb, self.Elogb = _compute_expectations(self.g, self.h)\<close>
  (For \<open>V = 0\<close> Python raises \<^verbatim>\<open>ZeroDivisionError\<close> at \<^verbatim>\<open>self.c0 / V\<close>; the model is about
  \<open>V > 0\<close>.)
\<close>

definition update_beta :: "special \<Rightarrow> cmf_params \<Rightarrow> mat \<Rightarrow> pstore \<Rightarrow> pstore" where
  "update_beta sp hp X s =
     (let V = length X;
          theta = theta_of s;
          xauxsum = mat_div X (auxsum s theta);
          g' = mat_map (\<lambda>x. c0 hp / real V + x)
                 (mat_mul (mat_map exp (Elogb s)) (dot xauxsum (mat_T (mat_map exp theta))));
          h' = tile_rows (map (\<lambda>x. c0 hp + x) (sum_axis1 (mat_map exp theta))) V;
          (Eb', Elogb') = compute_expectations sp g' h'
      in s\<lparr>g := g', h := h', Eb := Eb', Elogb := Elogb'\<rparr>)"

text \<open>
  \<^verbatim>\<open>def _update_ql(self, X):
      for i, _ in enumerate(range(self.num_steps)):
          l_temp = np.zeros(self.l.shape)
          for k in range(self.K):
              Eb_k = self.Eb[:, k]
              Elogb_k = self.Elogb[:, k]
              theta = self.alpha[np.newaxis, :] + np.dot(self.l, self.u.T)
              theta_k = theta[k, :]
              xauxsum = X / self._auxsum(theta)
              grad = xauxsum * np.outer(np.exp(Elogb_k), np.exp(theta_k))
              grad -= np.outer(Eb_k, np.exp(theta_k))
              grad = np.sum((grad[:, :, np.newaxis] * self.u - self.l[k, :]), axis=(0,1))
              l_temp[k, :] = self.l[k, :] + self.step_size * grad
          self.l = l_temp\<close>
  \<open>ql_grad\<close> is the last value of \<^verbatim>\<open>grad\<close> in the body of the loop over \<open>k\<close>, \<open>ql_row\<close> the
  row written to \<^verbatim>\<open>l_temp\<close>, \<open>ql_rows\<close> the loop over \<open>k\<close> (it reads the store and writes
  \<^verbatim>\<open>l_temp\<close>), \<open>ql_step\<close> one pass of the outer loop and \<open>update_ql_loop\<close> the outer loop.
\<close>

definition zeros :: "nat \<Rightarrow> nat \<Rightarrow> mat" where
  "zeros r c = replicate r (replicate c 0)"

definition ql_grad :: "mat \<Rightarrow> pstore \<Rightarrow> nat \<Rightarrow> vec" where
  "ql_grad X s k =
     (let Eb_k = column (Eb s) k;
          Elogb_k = column (Elogb s) k;
          theta = theta_of s;
          theta_k = theta ! k;
          xauxsum = mat_div X (auxsum s theta);
          grad = mat_mul xauxsum (outer (map exp Elogb_k) (map exp theta_k));
          grad = mat_sub grad (outer Eb_k (map exp theta_k))
      in sum_axes01 (sub_last3 (bcast_mul3 grad (u s)) (l s ! k)))"

definition ql_row :: "cmf_params \<Rightarrow> mat \<Rightarrow> pstore \<Rightarrow> nat \<Rightarrow> vec" where
  "ql_row hp X s k = vec_add (l s ! k) (vec_scale (step_size hp) (ql_grad X s k))"

primrec ql_rows :: "cmf_params \<Rightarrow> mat \<Rightarrow> pstore \<Rightarrow> nat list \<Rightarrow> mat \<Rightarrow> mat" where
  "ql_rows hp X s [] l_temp = l_temp"
| "ql_rows hp X s (k # ks) l_temp = ql_rows hp X s ks (l_temp[k := ql_row hp X s k])"

definition ql_step :: "cmf_params \<Rightarrow> mat \<Rightarrow> pstore \<Rightarrow> pstore" where
  "ql_step hp X s =
     (let l_temp = zeros (length (l s)) (ncols (l s))
      in s\<lparr>l := ql_rows hp X s [0..<K hp] l_temp\<rparr>)"

primrec update_ql_loop :: "nat \<Rightarrow> cmf_params \<Rightarrow> mat \<Rightarrow> pstore \<Rightarrow> pstore" where
  "update_ql_loop 0 hp X s = s"
| "update_ql_loop (Suc n) hp X s = update_ql_loop n hp X (ql_step hp X s)"

definition update_ql :: "cmf_params \<Rightarrow> mat \<Rightarrow> pstore \<Rightarrow> pstore" where
  "update_ql hp X s = update_ql_loop (num_steps hp) hp X s"

text \<open>
  \<^verbatim>\<open>def _update_qu(self, X):
      D = X.shape[1]
      for i, _ in enumerate(range(self.num_steps)):
          u_temp = np.zeros(self.u.shape)
          for d in range(D):
              theta = self.alpha[np.newaxis, :] + np.dot(self.l, self.u.T)
              theta_d = theta[:, d]
              xauxsum = X[:, d] / self._auxsum(theta_d)
              grad = xauxsum[:, np.newaxis] * np.exp(self.Elogb) * np.exp(theta_d[np.newaxis, :])
              grad -= self.Eb * np.exp(theta_d[np.newaxis, :])
              grad = np.sum((grad[:, :, np.newaxis] * self.l - self.u[d, :]), axis=(0,1))
              u_temp[d, :] = self.u[d, :] + self.step_size * grad
          self.u = u_temp\<close>
  Here \<^verbatim>\<open>_auxsum\<close> gets the one-dimensional \<^verbatim>\<open>theta_d\<close>, so its \<^verbatim>\<open>np.dot\<close> is a
  product of a matrix and a vector.
\<close>

definition auxsum_vec :: "pstore \<Rightarrow> vec \<Rightarrow> vec" where
  "auxsum_vec s theta_d = mvdot (mat_map exp (Elogb s)) (map exp theta_d)"

definition qu_grad :: "mat \<Rightarrow> pstore \<Rightarrow> nat \<Rightarrow> vec" where
  "qu_grad X s d =
     (let theta = theta_of s;
          theta_d = column theta d;
          xauxsum = vec_div (column X d) (auxsum_vec s theta_d);
          grad = mul_row (mul_col xauxsum (mat_map exp (Elogb s))) (map exp theta_d);
          grad = mat_sub grad (mul_row (Eb s) (map exp theta_d))
      in sum_axes01 (sub_last3 (bcast_mul3 grad (l s)) (u s ! d)))"

definition qu_row :: "cmf_params \<Rightarrow> mat \<Rightarrow> pstore \<Rightarrow> nat \<Rightarrow> vec" where
  "qu_row hp X s d = vec_add (u s ! d) (vec_scale (step_size hp) (qu_grad X s d))"

primrec qu_rows :: "cmf_params \<Rightarrow> mat \<Rightarrow> pstore \<Rightarrow> nat list \<Rightarrow> mat \<Rightarrow> mat" where
  "qu_rows hp X s [] u_temp = u_temp"
| "qu_rows hp X s (d # ds) u_temp = qu_rows hp X s ds (u_temp[d := qu_row hp X s d])"

definition qu_step :: "cmf_params \<Rightarrow> mat \<Rightarrow> pstore \<Rightarrow> pstore" where
  "qu_step hp X s =
     (let D = ncols X;
          u_temp = zeros (length (u s)) (ncols (u s))
      in s\<lparr>u := qu_rows hp X s [0..<D] u_temp\<rparr>)"

primrec update_qu_loop :: "nat \<Rightarrow> cmf_params \<Rightarrow> mat \<Rightarrow> pstore \<Rightarrow> pstore" where
  "update_qu_loop 0 hp X s = s"
| "update_qu_loop (Suc n) hp X s = update_qu_loop n hp X (qu_step hp X s)"

definition update_qu :: "cmf_params \<Rightarrow> mat \<Rightarrow> pstore \<Rightarrow> pstore" where
  "update_qu hp X s = update_qu_loop (num_steps hp) hp X s"

section \<open>The bound and the update loop\<close>

text \<open>
  \<^verbatim>\<open>def _gamma_term(a, b, shape, rate, Ex, Elogx):
      return np.sum((a - shape) * Elogx - (b - rate) * Ex +
                    special.gammaln(shape) - shape * np.log(rate))\<close>
\<close>

definition gamma_term :: "special \<Rightarrow> real \<Rightarrow> real \<Rightarrow> mat \<Rightarrow> mat \<Rightarrow> mat \<Rightarrow> mat \<Rightarrow> real" where
  "gamma_term sp a b shape rate Ex' Elogx' =
     mat_sum (mat_sub (mat_add (mat_sub (mat_mul (mat_map (\<lambda>x. a - x) shape) Elogx')
                                        (mat_mul (mat_map (\<lambda>x. b - x) rate) Ex'))
                               (mat_map (gammaln sp) shape))
                      (mat_mul shape (mat_map ln rate)))"

text \<open>\<^verbatim>\<open>scipy.stats.norm.pdf(x, loc, scale)\<close>, the density of the normal distribution\<close>

definition norm_pdf :: "real \<Rightarrow> real \<Rightarrow> real \<Rightarrow> real" where
  "norm_pdf x loc scale = exp (- ((x - loc) / scale)\<^sup>2 / 2) / (sqrt (2 * pi) * scale)"

text \<open>
  \<^verbatim>\<open>def _bound(self, X):
      V = X.shape[0]
      theta = self.alpha[np.newaxis, :] + np.dot(self.l, self.u.T)
      bound = np.sum(X * np.log(self._auxsum(theta)) - np.dot(self.Eb, theta))
      bound += _gamma_term(self.c0, self.c0 / V, self.g, self.h, self.Eb, self.Elogb)
      bound += np.sum(np.log(norm.pdf(self.l, 0, self.sigma)))
      bound += np.sum(np.log(norm.pdf(self.u, 0, 1)))
      return bound\<close>
\<close>

definition bound :: "special \<Rightarrow> cmf_params \<Rightarrow> mat \<Rightarrow> pstore \<Rightarrow> real" where
  "bound sp hp X s =
     (let V = length X;
          theta = theta_of s;
          b = mat_sum (mat_sub (mat_mul X (mat_map ln (auxsum s theta))) (dot (Eb s) theta));
          b = b + gamma_term sp (c0 hp) (c0 hp / real V) (g s) (h s) (Eb s) (Elogb s);
          b = b + mat_sum (mat_map (\<lambda>x. ln (norm_pdf x 0 (sigma hp))) (l s));
          b = b + mat_sum (mat_map (\<lambda>x. ln (norm_pdf x 0 1)) (u s))
      in b)"

text \<open>
  \<^verbatim>\<open>def _update(self, X, update_beta=True):
      elbo_old = -np.inf
      for i in range(self.max_iters):
          self._update_alpha(X)
          self._update_ql(X)
          self._update_qu(X)
          if update_beta:
              self._update_beta(X)
          elbo_new = self._bound(X)
          chg = (elbo_new - elbo_old) / abs(elbo_old)
          if chg < self.tolerance:
              break
          elbo_old = elbo_new\<close>
  (the \<^verbatim>\<open>print\<close> calls, which change nothing, are left out). \<open>cycle\<close> is the four updates
  of one pass, \<open>rel_change\<close> the value of \<^verbatim>\<open>chg\<close>. \<open>update_loop n elbo_old s\<close> is the loop
  with \<open>n\<close> passes left; beside the store it returns how many passes it has run.
\<close>

definition cycle :: "special \<Rightarrow> cmf_params \<Rightarrow> mat \<Rightarrow> bool \<Rightarrow> pstore \<Rightarrow> pstore" where
  "cycle sp hp X upd_beta s =
     (let s1 = update_alpha X s;
          s2 = update_ql hp X s1;
          s3 = update_qu hp X s2
      in if upd_beta then update_beta sp hp X s3 else s3)"

definition rel_change :: "fl \<Rightarrow> fl \<Rightarrow> fl" where
  "rel_change elbo_new elbo_old = fl_div (fl_sub elbo_new elbo_old) (fl_abs elbo_old)"

primrec update_loop :: "special \<Rightarrow> cmf_params \<Rightarrow> mat \<Rightarrow> bool \<Rightarrow> nat \<Rightarrow> fl \<Rightarrow> pstore \<Rightarrow> nat \<times> pstore" where
  "update_loop sp hp X upd_beta 0 elbo_old s = (0, s)"
| "update_loop sp hp X upd_beta (Suc n) elbo_old s =
     (let s' = cycle sp hp X upd_beta s;
          elbo_new = Fin (bound sp hp X s');
          chg = rel_change elbo_new elbo_old
      in if fl_less chg (tolerance hp) then (1, s')
         else (case update_loop sp hp X upd_beta n elbo_new s' of (c, s'') \<Rightarrow> (Suc c, s'')))"

definition update :: "special \<Rightarrow> cmf_params \<Rightarrow> mat \<Rightarrow> bool \<Rightarrow> pstore \<Rightarrow> pstore" where
  "update sp hp X upd_beta s = snd (update_loop sp hp X upd_beta (max_iters hp) NInf s)"

section \<open>Initialisation, fit and transform\<close>

text \<open>
  The initialisers draw from numpy's global random generator. The numbers drawn are an
  input of the model: the two gamma samples of \<^verbatim>\<open>_init_qbeta\<close>, the normal sample and the
  uniform number of \<^verbatim>\<open>_init_ql\<close> and the normal sample of \<^verbatim>\<open>_init_qu\<close>.
  \<^verbatim>\<open>def _init_qbeta(self, V):
      self.g = np.random.gamma(self.smoothness, scale = 1.0 / self.smoothness, size=(V, self.K))
      self.h = np.random.gamma(self.smoothness, scale = 1.0 / self.smoothness, size=(V, self.K))
      self.Eb, self.Elogb = _compute_expectations(self.g, self.h)
  def _init_ql(self, D):
      mean = np.zeros(self.m)
      cov = self.sigma * np.eye(self.m)
      self.l = np.random.multivariate_normal(mean, cov, self.K) + np.random.random() * D
  def _init_qu(self, D):
      mean = np.zeros(self.m)
      cov = np.eye(self.m)
      self.u = np.random.multivariate_normal(mean, cov, D)\<close>
\<close>

record draws =
  gamma_g :: mat
  gamma_h :: mat
  normal_l :: mat
  uniform_l :: real
  normal_u :: mat

definition init_qbeta :: "special \<Rightarrow> draws \<Rightarrow> pstore \<Rightarrow> pstore" where
  "init_qbeta sp dr s =
     (let (Eb', Elogb') = compute_expectations sp (gamma_g dr) (gamma_h dr)
      in s\<lparr>g := gamma_g dr, h := gamma_h dr, Eb := Eb', Elogb := Elogb'\<rparr>)"

definition init_ql :: "draws \<Rightarrow> nat \<Rightarrow> pstore \<Rightarrow> pstore" where
  "init_ql dr D s = s\<lparr>l := mat_map (\<lambda>x. x + uniform_l dr * real D) (normal_l dr)\<rparr>"

definition init_qu :: "draws \<Rightarrow> nat \<Rightarrow> pstore \<Rightarrow> pstore" where
  "init_qu dr D s = s\<lparr>u := normal_u dr\<rparr>"

text \<open>
  An instance is its hyperparameters and, once \<^verbatim>\<open>fit\<close> has run, the store of the
  attributes \<open>g\<close>, \<open>h\<close>, \<open>Eb\<close>, \<open>Elogb\<close>, \<open>l\<close>, \<open>u\<close> and \<open>alpha\<close>; a fresh instance has none
  of them, which is what \<^verbatim>\<open>hasattr(self, 'Eb')\<close> tests. \<^verbatim>\<open>fit\<close> assigns \<open>alpha\<close> in the
  first pass of the loop, before anything reads it; until then the store holds the
  empty vector for it.
  \<^verbatim>\<open>def fit(self, X):
      V, D = X.shape
      self._init_qbeta(V)
      self._init_ql(D)
      self._init_qu(D)
      self._update(X)
      return self\<close>
\<close>

record cmf =
  params :: cmf_params
  store :: "pstore option"

definition empty_store :: pstore where
  "empty_store = \<lparr>g = [], h = [], Eb = [], Elogb = [], l = [], u = [], alpha = []\<rparr>"

definition fit :: "special \<Rightarrow> draws \<Rightarrow> cmf \<Rightarrow> mat \<Rightarrow> cmf" where
  "fit sp dr self X =
     (let D = ncols X;
          s0 = (case store self of None \<Rightarrow> empty_store | Some s \<Rightarrow> s);
          s1 = init_qbeta sp dr s0;
          s2 = init_ql dr D s1;
          s3 = init_qu dr D s2
      in self\<lparr>store := Some (update sp (params self) X True s3)\<rparr>)"

text \<open>
  \<^verbatim>\<open>def transform(self, X, attr='l'):
      if not hasattr(self, 'Eb'):
          raise ValueError('No beta initialized.')
      V, D = X.shape
      if not self.Eb.shape[0] == V:
          raise ValueError('Feature dim mismatch.')
      self._init_ql()
      self._init_qu(D)
      self._init_alpha(D)
      self._update(X, update_beta=False)
      return getattr(self, attr)\<close>
  A call binds its positional arguments to the parameters of the method and raises
  \<^verbatim>\<open>TypeError\<close> when their number is not the number of parameters: \<^verbatim>\<open>_init_ql\<close> and
  \<^verbatim>\<open>_init_qu\<close> have the one parameter \<open>D\<close>. The class and its two base classes of
  scikit-learn define no \<^verbatim>\<open>_init_alpha\<close>, so looking it up raises \<^verbatim>\<open>AttributeError\<close>.
  The result of \<open>transform\<close> is the instance as the call leaves it and either the
  exception raised or the value returned.
\<close>

datatype error = ValueError string | TypeError string | AttributeError string | ZeroDivisionError

datatype pyval = Array2 mat | Array1 vec | Float real | Count nat | Flag bool | FloatX fl

definition call_init_ql :: "draws \<Rightarrow> nat list \<Rightarrow> pstore \<Rightarrow> error + pstore" where
  "call_init_ql dr args s =
     (case args of [D] \<Rightarrow> Inr (init_ql dr D s) | _ \<Rightarrow> Inl (TypeError ''_init_ql''))"

definition call_init_qu :: "draws \<Rightarrow> nat list \<Rightarrow> pstore \<Rightarrow> error + pstore" where
  "call_init_qu dr args s =
     (case args of [D] \<Rightarrow> Inr (init_qu dr D s) | _ \<Rightarrow> Inl (TypeError ''_init_qu''))"

definition call_init_alpha :: "nat list \<Rightarrow> pstore \<Rightarrow> error + pstore" where
  "call_init_alpha args s = Inl (AttributeError ''_init_alpha'')"

definition getattr :: "cmf_params \<Rightarrow> pstore \<Rightarrow> string \<Rightarrow> error + pyval" where
  "getattr hp s attr =
     (if attr = ''l'' then Inr (Array2 (l s))
      else if attr = ''u'' then Inr (Array2 (u s))
      else if attr = ''alpha'' then Inr (Array1 (alpha s))
      else if attr = ''g'' then Inr (Array2 (g s))
      else if attr = ''h'' then Inr (Array2 (h s))
      else if attr = ''Eb'' then Inr (Array2 (Eb s))
      else if attr = ''Elogb'' then Inr (Array2 (Elogb s))
      else if attr = ''K'' then Inr (Count (K hp))
      else if attr = ''m'' then Inr (Count (m hp))
      else if attr = ''num_steps'' then Inr (Count (num_steps hp))
      else if attr = ''step_size'' then Inr (Float (step_size hp))
      else if attr = ''max_iters'' then Inr (Count (max_iters hp))
      else if attr = ''tolerance'' then Inr (FloatX (tolerance hp))
      else if attr = ''smoothness'' then Inr (Float (smoothness hp))
      else if attr = ''verbose'' then Inr (Flag (verbose hp))
      else if attr = ''c0'' then Inr (Float (c0 hp))
      else if attr = ''sigma'' then Inr (Float (sigma hp))
      else Inl (AttributeError attr))"

definition transform :: "special \<Rightarrow> draws \<Rightarrow> cmf \<Rightarrow> mat \<Rightarrow> string \<Rightarrow> cmf \<times> (error + pyval)" where
  "transform sp dr self X attr =
     (case store self of
        None \<Rightarrow> (self, Inl (ValueError ''No beta initialized.''))
      | Some s \<Rightarrow>
          (let V = length X; D = ncols X
           in if \<not> length (Eb s) = V then (self, Inl (ValueError ''Feature dim mismatch.''))
              else (case call_init_ql dr [] s of
                      Inl e \<Rightarrow> (self, Inl e)
                    | Inr s1 \<Rightarrow>
                        (case call_init_qu dr [D] s1 of
                           Inl e \<Rightarrow> (self\<lparr>store := Some s1\<rparr>, Inl e)
                         | Inr s2 \<Rightarrow>
                             (case call_init_alpha [D] s2 of
                                Inl e \<Rightarrow> (self\<lparr>store := Some s2\<rparr>, Inl e)
                              | Inr s3 \<Rightarrow>
                                  (let s4 = update sp (params self) X False s3
                                   in (self\<lparr>store := Some s4\<rparr>, getattr (params self) s4 attr)))))))"

section \<open>Shapes and entries\<close>

text \<open>Arrays of three dimensions of a given shape\<close>

definition is_ten :: "nat \<Rightarrow> nat \<Rightarrow> nat \<Rightarrow> ten \<Rightarrow> bool" where
  "is_ten p q r T \<longleftrightarrow> length T = p \<and> list_all (is_mat q r) T"

text \<open>
  The shapes of the arrays of the store for \<open>X\<close> of shape \<open>(nv, nd)\<close>, \<open>nk\<close> latent
  indices and latent positions of dimension \<open>nm\<close>, all positive.
\<close>

definition shaped :: "nat \<Rightarrow> nat \<Rightarrow> nat \<Rightarrow> nat \<Rightarrow> pstore \<Rightarrow> bool" where
  "shaped nv nk nm nd s \<longleftrightarrow>
     0 < nv \<and> 0 < nk \<and> 0 < nm \<and> 0 < nd \<and>
     is_mat nv nk (g s) \<and> is_mat nv nk (h s) \<and> is_mat nv nk (Eb s) \<and> is_mat nv nk (Elogb s) \<and>
     is_mat nk nm (l s) \<and> is_mat nd nm (u s) \<and> is_vec nd (alpha s)"

text \<open>The entry \<open>(k, d)\<close> of \<open>theta\<close> and the entry \<open>(v, d)\<close> of \<open>auxsum(theta)\<close>, written with sums\<close>

definition theta_at :: "nat \<Rightarrow> pstore \<Rightarrow> nat \<Rightarrow> nat \<Rightarrow> real" where
  "theta_at nm s k d = alpha s ! d + (\<Sum>j<nm. l s ! k ! j * u s ! d ! j)"

definition auxsum_at :: "nat \<Rightarrow> nat \<Rightarrow> pstore \<Rightarrow> nat \<Rightarrow> nat \<Rightarrow> real" where
  "auxsum_at nk nm s v d = (\<Sum>k<nk. exp (Elogb s ! v ! k) * exp (theta_at nm s k d))"

text \<open>
  The bracket of the gradient of row \<open>k\<close> at the entry \<open>(v, d)\<close>:
  \<open>X / auxsum * exp(Elogb_k) * exp(theta_k) - Eb_k * exp(theta_k)\<close>.
\<close>

definition ql_bracket :: "nat \<Rightarrow> nat \<Rightarrow> mat \<Rightarrow> pstore \<Rightarrow> nat \<Rightarrow> nat \<Rightarrow> nat \<Rightarrow> real" where
  "ql_bracket nk nm X s k v d =
     X ! v ! d / auxsum_at nk nm s v d * (exp (Elogb s ! v ! k) * exp (theta_at nm s k d))
     - Eb s ! v ! k * exp (theta_at nm s k d)"

text \<open>Matrices with positive entries, and with non-negative entries\<close>

definition mat_pos :: "mat \<Rightarrow> bool" where
  "mat_pos A \<longleftrightarrow> list_all (list_all (\<lambda>x. 0 < x)) A"

definition mat_nonneg :: "mat \<Rightarrow> bool" where
  "mat_nonneg A \<longleftrightarrow> list_all (list_all (\<lambda>x. 0 \<le> x)) A"

text \<open>The expectations are those of the current \<open>g\<close> and \<open>h\<close>\<close>

definition expectations_ok :: "special \<Rightarrow> pstore \<Rightarrow> bool" where
  "expectations_ok sp s \<longleftrightarrow>
     Eb s = mat_div (g s) (h s) \<and> Elogb s = mat_sub (mat_map (psi sp) (g s)) (mat_map ln (h s))"

section \<open>The specification's wording, for comparison\<close>

text \<open>
  The rate matrix as the specification words it, with the column sums of \<open>exp(theta)\<close>
  (one sum for every column \<open>d\<close>, as \<^verbatim>\<open>np.sum(..., axis=0)\<close> gives them).
\<close>

definition update_beta_h_colsums :: "cmf_params \<Rightarrow> mat \<Rightarrow> pstore \<Rightarrow> mat" where
  "update_beta_h_colsums hp X s =
     tile_rows (map (\<lambda>x. c0 hp + x) (sum_axis0 (mat_map exp (theta_of s)))) (length X)"

text \<open>
  The gradient of row \<open>k\<close> as the specification words it: the brackets times \<open>u\<close>, summed
  over \<open>(v, d)\<close>, minus \<open>l_k\<close> once.
\<close>

definition ql_grad_prior_once :: "mat \<Rightarrow> pstore \<Rightarrow> nat \<Rightarrow> vec" where
  "ql_grad_prior_once X s k =
     (let Eb_k = column (Eb s) k;
          Elogb_k = column (Elogb s) k;
          theta = theta_of s;
          theta_k = theta ! k;
          xauxsum = mat_div X (auxsum s theta);
          grad = mat_mul xauxsum (outer (map exp Elogb_k) (map exp theta_k));
          grad = mat_sub grad (outer Eb_k (map exp theta_k))
      in vec_sub (sum_axes01 (bcast_mul3 grad (u s))) (l s ! k))"

text \<open>
  The pass over \<open>k\<close> as the specification words it: every row is written to \<open>l\<close> at
  once, so that the next \<open>k\<close> computes \<open>theta\<close> from the rows already updated.
\<close>

primrec ql_rows_sequential :: "cmf_params \<Rightarrow> mat \<Rightarrow> nat list \<Rightarrow> pstore \<Rightarrow> pstore" where
  "ql_rows_sequential hp X [] s = s"
| "ql_rows_sequential hp X (k # ks) s =
     ql_rows_sequential hp X ks (s\<lparr>l := (l s)[k := ql_row hp X s k]\<rparr>)"

definition ql_step_sequential :: "cmf_params \<Rightarrow> mat \<Rightarrow> pstore \<Rightarrow> pstore" where
  "ql_step_sequential hp X s = ql_rows_sequential hp X [0..<K hp] s"

section \<open>Example inputs\<close>

text \<open>
  Stand-ins for the two scipy functions, hyperparameters, stores, draws and matrices,
  used where a theorem is applied to a concrete input.
\<close>

definition sp_ex :: special where
  "sp_ex = \<lparr>psi = (\<lambda>x. ln x - 1 / (2 * x)), gammaln = (\<lambda>x. (x - 1 / 2) * ln x - x)\<rparr>"

definition hp_ex :: cmf_params where
  "hp_ex = \<lparr>K = 1, m = 1, num_steps = 1, step_size = 1 / 10, max_iters = 1,
            tolerance = Fin (5 / 10000), smoothness = 100, verbose = False, c0 = 1 / 10, sigma = 1\<rparr>"

definition s_ex :: pstore where
  "s_ex = \<lparr>g = [[1]], h = [[1]], Eb = [[1]], Elogb = [[0]], l = [[1]], u = [[1], [1]],
           alpha = [- 1, - 1]\<rparr>"

definition X_ex :: mat where
  "X_ex = [[3, 2]]"

definition dr_ex :: draws where
  "dr_ex = \<lparr>gamma_g = [[1]], gamma_h = [[1]], normal_l = [[1]], uniform_l = 0,
            normal_u = [[1], [1]]\<rparr>"

definition fresh_ex :: cmf where
  "fresh_ex = \<lparr>params = hp_ex, store = None\<rparr>"

definition X_ex3 :: mat where
  "X_ex3 = [[3, 2], [1, 1]]"

definition hp_ex2 :: cmf_params where
  "hp_ex2 = hp_ex\<lparr>K := 2\<rparr>"

definition s_ex2 :: pstore where
  "s_ex2 = \<lparr>g = [[1, 1]], h = [[1, 1]], Eb = [[1, 1]], Elogb = [[0, 0]], l = [[0], [0]],
            u = [[0], [0]], alpha = [0, ln 2]\<rparr>"

definition X_ex2 :: mat where
  "X_ex2 = [[1, 1]]"

definition hp_seq :: cmf_params where
  "hp_seq = hp_ex\<lparr>K := 2, step_size := 1\<rparr>"

definition s_seq :: pstore where
  "s_seq = \<lparr>g = [[1, 1]], h = [[1, 1]], Eb = [[1, 1]], Elogb = [[0, 0]], l = [[0], [0]],
            u = [[1]], alpha = [0]\<rparr>"

definition X_seq :: mat where
  "X_seq = [[4]]"

section \<open>Lemmas about the model\<close>

subsection \<open>Array operations\<close>

lemma is_mat_row: "is_mat r c A \<Longrightarrow> i < r \<Longrightarrow> length (A ! i) = c"
  by (simp add: is_mat_def list_all_length)

lemma is_mat_length: "is_mat r c A \<Longrightarrow> length A = r"
  by (simp add: is_mat_def)

lemma is_matI: "length A = r \<Longrightarrow> (\<And>i. i < r \<Longrightarrow> length (A ! i) = c) \<Longrightarrow> is_mat r c A"
  by (simp add: is_mat_def list_all_length)

lemma ncols_is_mat: "is_mat r c A \<Longrightarrow> 0 < r \<Longrightarrow> ncols A = c"
  by (cases A) (simp_all add: is_mat_def ncols_def)

lemma sum_list_nth_sum: "length xs = n \<Longrightarrow> sum_list xs = (\<Sum>i<n. xs ! i)"
  by (simp add: sum_list_sum_nth atLeast0LessThan)

lemma vdot_sum: "length a = n \<Longrightarrow> length b = n \<Longrightarrow> vdot a b = (\<Sum>i<n. a ! i * b ! i)"
  by (simp add: vdot_def sum_list_nth_sum [of _ n])

lemma column_nth: "i < length A \<Longrightarrow> column A j ! i = A ! i ! j"
  by (simp add: column_def)

lemma length_column: "length (column A j) = length A"
  by (simp add: column_def)

lemma mat_T_is_mat: "is_mat r c A \<Longrightarrow> 0 < r \<Longrightarrow> is_mat c r (mat_T A)"
  by (rule is_matI) (simp_all add: mat_T_def ncols_is_mat length_column is_mat_length)

lemma mat_T_nth: "is_mat r c A \<Longrightarrow> 0 < r \<Longrightarrow> j < c \<Longrightarrow> i < r \<Longrightarrow> mat_T A ! j ! i = A ! i ! j"
  by (simp add: mat_T_def ncols_is_mat column_nth is_mat_length)

lemma mat_T_row: "is_mat r c A \<Longrightarrow> 0 < r \<Longrightarrow> j < c \<Longrightarrow> mat_T A ! j = column A j"
  by (simp add: mat_T_def ncols_is_mat)

lemma dot_is_mat:
  "is_mat p q A \<Longrightarrow> is_mat q r B \<Longrightarrow> 0 < q \<Longrightarrow> is_mat p r (dot A B)"
  by (rule is_matI) (simp_all add: dot_def is_mat_length mat_T_def ncols_is_mat)

lemma dot_nth:
  assumes "is_mat p q A" "is_mat q r B" "0 < q" "i < p" "j < r"
  shows "dot A B ! i ! j = (\<Sum>k<q. A ! i ! k * B ! k ! j)"
proof -
  have "dot A B ! i ! j = vdot (A ! i) (column B j)"
    using assms by (simp add: dot_def is_mat_length mat_T_def ncols_is_mat)
  also have "\<dots> = (\<Sum>k<q. A ! i ! k * column B j ! k)"
    using assms by (intro vdot_sum) (simp_all add: is_mat_row length_column is_mat_length)
  also have "\<dots> = (\<Sum>k<q. A ! i ! k * B ! k ! j)"
    using assms by (intro sum.cong) (simp_all add: column_nth is_mat_length)
  finally show ?thesis .
qed

lemma mat_map_is_mat: "is_mat r c A \<Longrightarrow> is_mat r c (mat_map f A)"
  by (simp add: is_mat_def mat_map_def list_all_length)

lemma mat_map_nth: "is_mat r c A \<Longrightarrow> i < r \<Longrightarrow> j < c \<Longrightarrow> mat_map f A ! i ! j = f (A ! i ! j)"
  by (simp add: is_mat_def mat_map_def list_all_length)

lemma map2_rows_is_mat: "is_mat r c A \<Longrightarrow> is_mat r c B \<Longrightarrow> is_mat r c (map2 (map2 f) A B)"
  by (simp add: is_mat_def list_all_length)

lemma map2_rows_nth:
  "is_mat r c A \<Longrightarrow> is_mat r c B \<Longrightarrow> i < r \<Longrightarrow> j < c \<Longrightarrow> map2 (map2 f) A B ! i ! j = f (A ! i ! j) (B ! i ! j)"
  by (simp add: is_mat_def list_all_length)

lemmas mat_ops_is_mat =
  map2_rows_is_mat [of _ _ _ _ "(+)", folded mat_add_def]
  map2_rows_is_mat [of _ _ _ _ "(-)", folded mat_sub_def]
  map2_rows_is_mat [of _ _ _ _ "(*)", folded mat_mul_def]
  map2_rows_is_mat [of _ _ _ _ "(/)", folded mat_div_def]

lemmas mat_ops_nth =
  map2_rows_nth [of _ _ _ _ _ _ "(+)", folded mat_add_def]
  map2_rows_nth [of _ _ _ _ _ _ "(-)", folded mat_sub_def]
  map2_rows_nth [of _ _ _ _ _ _ "(*)", folded mat_mul_def]
  map2_rows_nth [of _ _ _ _ _ _ "(/)", folded mat_div_def]

lemma add_row_is_mat: "is_vec c v \<Longrightarrow> is_mat r c A \<Longrightarrow> is_mat r c (add_row v A)"
  by (simp add: is_mat_def is_vec_def add_row_def list_all_length)

lemma add_row_nth:
  "is_vec c v \<Longrightarrow> is_mat r c A \<Longrightarrow> i < r \<Longrightarrow> j < c \<Longrightarrow> add_row v A ! i ! j = v ! j + A ! i ! j"
  by (simp add: is_mat_def is_vec_def add_row_def list_all_length)

lemma lu_is_mat:
  assumes "is_mat nk nm (l s)" "is_mat nd nm (u s)" "0 < nm" "0 < nd"
  shows "is_mat nk nd (dot (l s) (mat_T (u s)))"
  using assms by (intro dot_is_mat [of _ nm] mat_T_is_mat)

lemma lu_nth:
  assumes "is_mat nk nm (l s)" "is_mat nd nm (u s)" "0 < nm" "0 < nd" "k < nk" "d < nd"
  shows "dot (l s) (mat_T (u s)) ! k ! d = (\<Sum>j<nm. l s ! k ! j * u s ! d ! j)"
proof -
  have "dot (l s) (mat_T (u s)) ! k ! d = (\<Sum>j<nm. l s ! k ! j * mat_T (u s) ! j ! d)"
    using assms by (intro dot_nth [of nk nm _ nd] mat_T_is_mat)
  also have "\<dots> = (\<Sum>j<nm. l s ! k ! j * u s ! d ! j)"
    using assms by (intro sum.cong refl) (simp add: mat_T_nth [of nd nm])
  finally show ?thesis .
qed

lemma theta_is_mat:
  assumes "is_mat nk nm (l s)" "is_mat nd nm (u s)" "is_vec nd (alpha s)" "0 < nm" "0 < nd"
  shows "is_mat nk nd (theta_of s)"
  unfolding theta_of_def using assms by (intro add_row_is_mat lu_is_mat)

lemma theta_nth:
  assumes "is_mat nk nm (l s)" "is_mat nd nm (u s)" "is_vec nd (alpha s)" "0 < nm" "0 < nd"
    "k < nk" "d < nd"
  shows "theta_of s ! k ! d = theta_at nm s k d"
  unfolding theta_of_def theta_at_def using assms
  by (simp add: add_row_nth [of nd _ nk] lu_is_mat lu_nth)

lemma auxsum_is_mat:
  assumes "is_mat nv nk (Elogb s)" "is_mat nk nd th" "0 < nk"
  shows "is_mat nv nd (auxsum s th)"
  unfolding auxsum_def using assms by (intro dot_is_mat [of _ nk] mat_map_is_mat)

lemma auxsum_nth:
  assumes "is_mat nv nk (Elogb s)" "is_mat nk nd th" "0 < nk" "v < nv" "d < nd"
  shows "auxsum s th ! v ! d = (\<Sum>k<nk. exp (Elogb s ! v ! k) * exp (th ! k ! d))"
proof -
  have "auxsum s th ! v ! d = (\<Sum>k<nk. mat_map exp (Elogb s) ! v ! k * mat_map exp th ! k ! d)"
    unfolding auxsum_def using assms by (intro dot_nth [of nv nk _ nd] mat_map_is_mat)
  also have "\<dots> = (\<Sum>k<nk. exp (Elogb s ! v ! k) * exp (th ! k ! d))"
    using assms by (intro sum.cong refl) (simp add: mat_map_nth [of nv nk] mat_map_nth [of nk nd])
  finally show ?thesis .
qed

lemma auxsum_theta_nth:
  assumes "is_mat nv nk (Elogb s)" "is_mat nk nm (l s)" "is_mat nd nm (u s)" "is_vec nd (alpha s)"
    "0 < nk" "0 < nm" "0 < nd" "v < nv" "d < nd"
  shows "auxsum s (theta_of s) ! v ! d = auxsum_at nk nm s v d"
proof -
  have th: "is_mat nk nd (theta_of s)"
    using assms by (intro theta_is_mat [of _ nm])
  have "auxsum s (theta_of s) ! v ! d = (\<Sum>k<nk. exp (Elogb s ! v ! k) * exp (theta_of s ! k ! d))"
    using assms th by (intro auxsum_nth [of nv])
  also have "\<dots> = auxsum_at nk nm s v d"
    unfolding auxsum_at_def using assms
    by (intro sum.cong refl) (simp add: theta_nth [of nk nm s nd])
  finally show ?thesis .
qed

lemma sum_axis0_length: "is_mat r c A \<Longrightarrow> 0 < r \<Longrightarrow> length (sum_axis0 A) = c"
  by (simp add: sum_axis0_def ncols_is_mat)

lemma sum_axis0_nth:
  "is_mat r c A \<Longrightarrow> 0 < r \<Longrightarrow> j < c \<Longrightarrow> sum_axis0 A ! j = (\<Sum>i<r. A ! i ! j)"
  by (simp add: sum_axis0_def ncols_is_mat sum_list_nth_sum [of _ r] length_column
      is_mat_length column_nth)

lemma sum_axis1_nth: "is_mat r c A \<Longrightarrow> i < r \<Longrightarrow> sum_axis1 A ! i = (\<Sum>j<c. A ! i ! j)"
  by (simp add: sum_axis1_def is_mat_length sum_list_nth_sum [of _ c] is_mat_row)

lemma is_ten_nth: "is_ten p q r T \<Longrightarrow> i < p \<Longrightarrow> is_mat q r (T ! i)"
  by (simp add: is_ten_def list_all_length)

lemma map_sum_axis0_is_mat:
  assumes "is_ten p q r T" "0 < q"
  shows "is_mat p r (map sum_axis0 T)"
proof (rule is_matI)
  show "length (map sum_axis0 T) = p"
    using assms by (simp add: is_ten_def)
next
  fix i assume i: "i < p"
  then have "length (sum_axis0 (T ! i)) = r"
    using assms by (intro sum_axis0_length [of q]) (simp_all add: is_ten_nth [of p])
  then show "length (map sum_axis0 T ! i) = r"
    using assms i by (simp add: is_ten_def)
qed

lemma sum_axes01_length:
  assumes "is_ten p q r T" "0 < p" "0 < q"
  shows "length (sum_axes01 T) = r"
  using assms map_sum_axis0_is_mat [of p q r T]
  by (simp add: sum_axes01_def sum_axis0_length [of p])

lemma sum_axes01_nth:
  assumes "is_ten p q r T" "0 < p" "0 < q" "n < r"
  shows "sum_axes01 T ! n = (\<Sum>i<p. \<Sum>j<q. T ! i ! j ! n)"
proof -
  have M: "is_mat p r (map sum_axis0 T)"
    using assms by (intro map_sum_axis0_is_mat [of p q])
  have "sum_axes01 T ! n = (\<Sum>i<p. map sum_axis0 T ! i ! n)"
    unfolding sum_axes01_def using M assms by (intro sum_axis0_nth)
  also have "\<dots> = (\<Sum>i<p. \<Sum>j<q. T ! i ! j ! n)"
  proof (intro sum.cong refl)
    fix i assume "i \<in> {..<p}"
    then have i: "i < p" by simp
    then have "map sum_axis0 T ! i ! n = sum_axis0 (T ! i) ! n"
      using assms by (simp add: is_ten_def)
    also have "\<dots> = (\<Sum>j<q. T ! i ! j ! n)"
      using assms i by (intro sum_axis0_nth is_ten_nth [of p])
    finally show "map sum_axis0 T ! i ! n = (\<Sum>j<q. T ! i ! j ! n)" .
  qed
  finally show ?thesis .
qed

lemma bcast_mul3_is_ten: "is_mat p q G \<Longrightarrow> is_mat q r B \<Longrightarrow> is_ten p q r (bcast_mul3 G B)"
  by (simp add: is_ten_def is_mat_def bcast_mul3_def list_all_length)

lemma bcast_mul3_nth:
  "is_mat p q G \<Longrightarrow> is_mat q r B \<Longrightarrow> i < p \<Longrightarrow> j < q \<Longrightarrow> n < r \<Longrightarrow>
   bcast_mul3 G B ! i ! j ! n = G ! i ! j * B ! j ! n"
  by (simp add: is_mat_def bcast_mul3_def list_all_length)

lemma sub_last3_is_ten: "is_ten p q r T \<Longrightarrow> is_vec r w \<Longrightarrow> is_ten p q r (sub_last3 T w)"
  by (simp add: is_ten_def is_mat_def is_vec_def sub_last3_def list_all_length)

lemma sub_last3_nth:
  "is_ten p q r T \<Longrightarrow> is_vec r w \<Longrightarrow> i < p \<Longrightarrow> j < q \<Longrightarrow> n < r \<Longrightarrow>
   sub_last3 T w ! i ! j ! n = T ! i ! j ! n - w ! n"
  by (simp add: is_ten_def is_mat_def is_vec_def sub_last3_def list_all_length)

subsection \<open>update_alpha\<close>

lemma update_alpha_nth:
  assumes X: "is_mat nv nd X"
    and sh: "is_mat nv nk (Eb s)" "is_mat nk nm (l s)" "is_mat nd nm (u s)"
    and pos: "0 < nv" "0 < nk" "0 < nm" "0 < nd"
    and d: "d < nd"
  shows "alpha (update_alpha X s) ! d =
           ln (\<Sum>v<nv. X ! v ! d)
           - ln (\<Sum>v<nv. \<Sum>k<nk. Eb s ! v ! k * exp (\<Sum>j<nm. l s ! k ! j * u s ! d ! j))"
proof -
  let ?E = "mat_map exp (dot (l s) (mat_T (u s)))"
  let ?T = "bcast_mul3 (Eb s) ?E"
  have lu: "is_mat nk nd (dot (l s) (mat_T (u s)))"
    using sh pos by (intro lu_is_mat [of _ nm])
  then have E: "is_mat nk nd ?E" by (rule mat_map_is_mat)
  have T: "is_ten nv nk nd ?T"
    using sh E by (intro bcast_mul3_is_ten)
  have len1: "length (sum_axis0 X) = nd"
    using X pos by (simp add: sum_axis0_length)
  have len2: "length (sum_axes01 ?T) = nd"
    using T pos by (simp add: sum_axes01_length)
  have a: "sum_axis0 X ! d = (\<Sum>v<nv. X ! v ! d)"
    using X pos d by (intro sum_axis0_nth)
  have "sum_axes01 ?T ! d = (\<Sum>v<nv. \<Sum>k<nk. ?T ! v ! k ! d)"
    using T pos d by (intro sum_axes01_nth)
  also have "\<dots> = (\<Sum>v<nv. \<Sum>k<nk. Eb s ! v ! k * exp (\<Sum>j<nm. l s ! k ! j * u s ! d ! j))"
    using sh E lu d pos
    by (intro sum.cong refl)
      (simp add: bcast_mul3_nth [of nv nk _ nd] mat_map_nth [of nk nd] lu_nth [of nk nm s nd])
  finally have b: "sum_axes01 ?T ! d =
    (\<Sum>v<nv. \<Sum>k<nk. Eb s ! v ! k * exp (\<Sum>j<nm. l s ! k ! j * u s ! d ! j))" .
  show ?thesis
    using len1 len2 d a b by (simp add: update_alpha_def vec_sub_def)
qed

lemma update_alpha_length:
  assumes X: "is_mat nv nd X"
    and sh: "is_mat nv nk (Eb s)" "is_mat nk nm (l s)" "is_mat nd nm (u s)"
    and pos: "0 < nv" "0 < nk" "0 < nm" "0 < nd"
  shows "is_vec nd (alpha (update_alpha X s))"
proof -
  let ?E = "mat_map exp (dot (l s) (mat_T (u s)))"
  have "is_mat nk nd ?E"
    using sh pos by (intro mat_map_is_mat lu_is_mat [of _ nm])
  then have "is_ten nv nk nd (bcast_mul3 (Eb s) ?E)"
    using sh by (intro bcast_mul3_is_ten)
  then have "length (sum_axes01 (bcast_mul3 (Eb s) ?E)) = nd"
    using pos by (simp add: sum_axes01_length)
  then show ?thesis
    using X pos by (simp add: update_alpha_def vec_sub_def is_vec_def sum_axis0_length)
qed

subsection \<open>update_beta\<close>

lemma update_beta_g:
  "g (update_beta sp hp X s) =
     mat_map (\<lambda>x. c0 hp / real (length X) + x)
       (mat_mul (mat_map exp (Elogb s))
          (dot (mat_div X (auxsum s (theta_of s))) (mat_T (mat_map exp (theta_of s)))))"
  by (simp add: update_beta_def Let_def split: prod.splits)

lemma update_beta_h:
  "h (update_beta sp hp X s) =
     tile_rows (map (\<lambda>x. c0 hp + x) (sum_axis1 (mat_map exp (theta_of s)))) (length X)"
  by (simp add: update_beta_def Let_def split: prod.splits)

lemma update_beta_Eb:
  "Eb (update_beta sp hp X s) = mat_div (g (update_beta sp hp X s)) (h (update_beta sp hp X s))"
  by (simp add: update_beta_def Let_def compute_expectations_def split: prod.splits)

lemma update_beta_Elogb:
  "Elogb (update_beta sp hp X s) =
     mat_sub (mat_map (psi sp) (g (update_beta sp hp X s))) (mat_map ln (h (update_beta sp hp X s)))"
  by (simp add: update_beta_def Let_def compute_expectations_def split: prod.splits)

lemma update_beta_keeps:
  "l (update_beta sp hp X s) = l s" "u (update_beta sp hp X s) = u s"
  "alpha (update_beta sp hp X s) = alpha s"
  by (simp_all add: update_beta_def Let_def split: prod.splits)

lemma update_beta_g_is_mat:
  assumes X: "is_mat nv nd X" and s: "shaped nv nk nm nd s"
  shows "is_mat nv nk (g (update_beta sp hp X s))"
proof -
  from s have pos: "0 < nv" "0 < nk" "0 < nm" "0 < nd"
    and sh: "is_mat nv nk (Elogb s)" "is_mat nk nm (l s)" "is_mat nd nm (u s)" "is_vec nd (alpha s)"
    by (simp_all add: shaped_def)
  have th: "is_mat nk nd (theta_of s)"
    using sh pos by (intro theta_is_mat [of _ nm])
  have ax: "is_mat nv nd (auxsum s (theta_of s))"
    using sh th pos by (intro auxsum_is_mat [of _ nk])
  have xa: "is_mat nv nd (mat_div X (auxsum s (theta_of s)))"
    using X ax by (intro mat_ops_is_mat)
  have "is_mat nd nk (mat_T (mat_map exp (theta_of s)))"
    using th pos by (intro mat_T_is_mat mat_map_is_mat)
  then have "is_mat nv nk (dot (mat_div X (auxsum s (theta_of s))) (mat_T (mat_map exp (theta_of s))))"
    using xa pos by (intro dot_is_mat [of _ nd])
  then show ?thesis
    unfolding update_beta_g using sh by (intro mat_map_is_mat mat_ops_is_mat)
qed

lemma update_beta_g_nth:
  assumes X: "is_mat nv nd X" and s: "shaped nv nk nm nd s" and v: "v < nv" and k: "k < nk"
  shows "g (update_beta sp hp X s) ! v ! k =
           c0 hp / real nv
           + exp (Elogb s ! v ! k)
             * (\<Sum>d<nd. X ! v ! d / auxsum_at nk nm s v d * exp (theta_at nm s k d))"
proof -
  let ?th = "theta_of s"
  let ?xa = "mat_div X (auxsum s ?th)"
  let ?ET = "mat_T (mat_map exp ?th)"
  from s have pos: "0 < nv" "0 < nk" "0 < nm" "0 < nd"
    and sh: "is_mat nv nk (Elogb s)" "is_mat nk nm (l s)" "is_mat nd nm (u s)" "is_vec nd (alpha s)"
    by (simp_all add: shaped_def)
  have th: "is_mat nk nd ?th"
    using sh pos by (intro theta_is_mat [of _ nm])
  have ax: "is_mat nv nd (auxsum s ?th)"
    using sh th pos by (intro auxsum_is_mat [of _ nk])
  have xa: "is_mat nv nd ?xa"
    using X ax by (intro mat_ops_is_mat)
  have E: "is_mat nk nd (mat_map exp ?th)"
    using th by (rule mat_map_is_mat)
  have ET: "is_mat nd nk ?ET"
    using E pos by (intro mat_T_is_mat)
  have dt: "is_mat nv nk (dot ?xa ?ET)"
    using xa ET pos by (intro dot_is_mat [of _ nd])
  have "dot ?xa ?ET ! v ! k = (\<Sum>d<nd. ?xa ! v ! d * ?ET ! d ! k)"
    using xa ET pos v k by (intro dot_nth [of nv nd _ nk])
  also have "\<dots> = (\<Sum>d<nd. X ! v ! d / auxsum_at nk nm s v d * exp (theta_at nm s k d))"
  proof (intro sum.cong refl)
    fix d assume "d \<in> {..<nd}"
    then have d: "d < nd" by simp
    have 1: "?xa ! v ! d = X ! v ! d / auxsum_at nk nm s v d"
      using X ax v d sh pos
      by (simp add: mat_ops_nth [of nv nd] auxsum_theta_nth [of nv nk s nm nd])
    have 2: "?ET ! d ! k = exp (theta_at nm s k d)"
      using E th pos d k sh
      by (simp add: mat_T_nth [of nk nd] mat_map_nth [of nk nd] theta_nth [of nk nm s nd])
    show "?xa ! v ! d * ?ET ! d ! k = X ! v ! d / auxsum_at nk nm s v d * exp (theta_at nm s k d)"
      by (simp only: 1 2)
  qed
  finally have D: "dot ?xa ?ET ! v ! k =
    (\<Sum>d<nd. X ! v ! d / auxsum_at nk nm s v d * exp (theta_at nm s k d))" .
  have ml: "is_mat nv nk (mat_mul (mat_map exp (Elogb s)) (dot ?xa ?ET))"
    using sh dt by (intro mat_ops_is_mat mat_map_is_mat)
  have "g (update_beta sp hp X s) ! v ! k =
      c0 hp / real (length X) + mat_map exp (Elogb s) ! v ! k * dot ?xa ?ET ! v ! k"
    unfolding update_beta_g using ml sh dt v k
    by (simp add: mat_map_nth [of nv nk] mat_ops_nth [of nv nk] mat_map_is_mat)
  then show ?thesis
    using D sh v k X by (simp add: mat_map_nth [of nv nk] is_mat_length)
qed

lemma update_beta_h_is_mat:
  assumes X: "is_mat nv nd X" and s: "shaped nv nk nm nd s"
  shows "is_mat nv nk (h (update_beta sp hp X s))"
proof -
  from s have pos: "0 < nv" "0 < nk" "0 < nm" "0 < nd"
    and sh: "is_mat nk nm (l s)" "is_mat nd nm (u s)" "is_vec nd (alpha s)"
    by (simp_all add: shaped_def)
  have "is_mat nk nd (theta_of s)"
    using sh pos by (intro theta_is_mat [of _ nm])
  then have "length (sum_axis1 (mat_map exp (theta_of s))) = nk"
    by (simp add: sum_axis1_def mat_map_def is_mat_length)
  then show ?thesis
    unfolding update_beta_h using X by (intro is_matI) (simp_all add: tile_rows_def is_mat_length)
qed

lemma update_beta_h_nth:
  assumes X: "is_mat nv nd X" and s: "shaped nv nk nm nd s" and v: "v < nv" and k: "k < nk"
  shows "h (update_beta sp hp X s) ! v ! k = c0 hp + (\<Sum>d<nd. exp (theta_at nm s k d))"
proof -
  from s have pos: "0 < nv" "0 < nk" "0 < nm" "0 < nd"
    and sh: "is_mat nk nm (l s)" "is_mat nd nm (u s)" "is_vec nd (alpha s)"
    by (simp_all add: shaped_def)
  have th: "is_mat nk nd (theta_of s)"
    using sh pos by (intro theta_is_mat [of _ nm])
  then have E: "is_mat nk nd (mat_map exp (theta_of s))"
    by (rule mat_map_is_mat)
  have len: "length (sum_axis1 (mat_map exp (theta_of s))) = nk"
    using E by (simp add: sum_axis1_def is_mat_length)
  have "sum_axis1 (mat_map exp (theta_of s)) ! k = (\<Sum>d<nd. mat_map exp (theta_of s) ! k ! d)"
    using E k by (intro sum_axis1_nth [of nk])
  also have "\<dots> = (\<Sum>d<nd. exp (theta_at nm s k d))"
    using th k sh pos
    by (intro sum.cong refl) (simp add: mat_map_nth [of nk nd] theta_nth [of nk nm s nd])
  finally have "sum_axis1 (mat_map exp (theta_of s)) ! k = (\<Sum>d<nd. exp (theta_at nm s k d))" .
  then show ?thesis
    unfolding update_beta_h using X v k len by (simp add: tile_rows_def is_mat_length)
qed

lemma auxsum_at_pos: "0 < nk \<Longrightarrow> 0 < auxsum_at nk nm s v d"
  unfolding auxsum_at_def by (intro sum_pos) (auto simp: lessThan_empty_iff)

subsection \<open>Positive and small matrices\<close>

lemma is_mat_11: "is_mat (Suc 0) (Suc 0) A \<Longrightarrow> A = [[A ! 0 ! 0]]"
  by (cases A; cases "hd A") (auto simp: is_mat_def length_Suc_conv)

lemma mat_posI:
  "is_mat r c A \<Longrightarrow> (\<And>i j. i < r \<Longrightarrow> j < c \<Longrightarrow> 0 < A ! i ! j) \<Longrightarrow> mat_pos A"
  by (simp add: mat_pos_def is_mat_def list_all_length)

lemma mat_nonneg_nth: "mat_nonneg A \<Longrightarrow> is_mat r c A \<Longrightarrow> i < r \<Longrightarrow> j < c \<Longrightarrow> 0 \<le> A ! i ! j"
  by (simp add: mat_nonneg_def is_mat_def list_all_length)

subsection \<open>What each update leaves alone\<close>

lemma update_alpha_keeps:
  "g (update_alpha X s) = g s" "h (update_alpha X s) = h s" "Eb (update_alpha X s) = Eb s"
  "Elogb (update_alpha X s) = Elogb s" "l (update_alpha X s) = l s" "u (update_alpha X s) = u s"
  by (simp_all add: update_alpha_def)

lemma ql_step_keeps:
  "g (ql_step hp X s) = g s" "h (ql_step hp X s) = h s" "Eb (ql_step hp X s) = Eb s"
  "Elogb (ql_step hp X s) = Elogb s" "u (ql_step hp X s) = u s" "alpha (ql_step hp X s) = alpha s"
  by (simp_all add: ql_step_def Let_def)

lemma update_ql_loop_keeps:
  "g (update_ql_loop n hp X s) = g s \<and> h (update_ql_loop n hp X s) = h s \<and>
   Eb (update_ql_loop n hp X s) = Eb s \<and> Elogb (update_ql_loop n hp X s) = Elogb s \<and>
   u (update_ql_loop n hp X s) = u s \<and> alpha (update_ql_loop n hp X s) = alpha s"
  by (induction n arbitrary: s) (simp_all add: ql_step_keeps)

lemma qu_step_keeps:
  "g (qu_step hp X s) = g s" "h (qu_step hp X s) = h s" "Eb (qu_step hp X s) = Eb s"
  "Elogb (qu_step hp X s) = Elogb s" "l (qu_step hp X s) = l s" "alpha (qu_step hp X s) = alpha s"
  by (simp_all add: qu_step_def Let_def)

lemma update_qu_loop_keeps:
  "g (update_qu_loop n hp X s) = g s \<and> h (update_qu_loop n hp X s) = h s \<and>
   Eb (update_qu_loop n hp X s) = Eb s \<and> Elogb (update_qu_loop n hp X s) = Elogb s \<and>
   l (update_qu_loop n hp X s) = l s \<and> alpha (update_qu_loop n hp X s) = alpha s"
  by (induction n arbitrary: s) (simp_all add: qu_step_keeps)

lemma gradient_updates_keep_beta:
  "g (update_qu hp X (update_ql hp X (update_alpha X s))) = g s"
  "h (update_qu hp X (update_ql hp X (update_alpha X s))) = h s"
  "Eb (update_qu hp X (update_ql hp X (update_alpha X s))) = Eb s"
  "Elogb (update_qu hp X (update_ql hp X (update_alpha X s))) = Elogb s"
  by (simp_all add: update_qu_def update_ql_def update_qu_loop_keeps update_ql_loop_keeps
      update_alpha_keeps)

subsection \<open>The derived expectations\<close>

lemma expectations_ok_update_beta: "expectations_ok sp (update_beta sp hp X s)"
  unfolding expectations_ok_def using update_beta_Eb update_beta_Elogb by blast

lemma expectations_ok_init_qbeta: "expectations_ok sp (init_qbeta sp dr s)"
  by (simp add: expectations_ok_def init_qbeta_def compute_expectations_def Let_def)

lemma expectations_ok_cong:
  "g s' = g s \<Longrightarrow> h s' = h s \<Longrightarrow> Eb s' = Eb s \<Longrightarrow> Elogb s' = Elogb s \<Longrightarrow>
   expectations_ok sp s' = expectations_ok sp s"
  by (simp add: expectations_ok_def)

lemma expectations_ok_cycle:
  "expectations_ok sp s \<Longrightarrow> expectations_ok sp (cycle sp hp X upd_beta s)"
  by (simp add: cycle_def Let_def expectations_ok_update_beta
      expectations_ok_cong [OF gradient_updates_keep_beta])

lemma expectations_ok_update_loop:
  "expectations_ok sp s \<Longrightarrow> expectations_ok sp (snd (update_loop sp hp X upd_beta n elbo_old s))"
proof (induction n arbitrary: elbo_old s)
  case 0
  then show ?case by simp
next
  case (Suc n)
  then show ?case
    by (simp add: Let_def expectations_ok_cycle split: prod.splits)
      (metis expectations_ok_cycle snd_conv)
qed

subsection \<open>The rows of the expectations\<close>

lemma update_beta_rows:
  assumes "length (Elogb s) = length X"
  shows "length (Eb (update_beta sp hp X s)) = length X"
    and "length (Elogb (update_beta sp hp X s)) = length X"
proof -
  have "length (g (update_beta sp hp X s)) = length X"
    using assms by (simp add: update_beta_g mat_map_def mat_mul_def mat_div_def dot_def auxsum_def)
  moreover have "length (h (update_beta sp hp X s)) = length X"
    by (simp add: update_beta_h tile_rows_def)
  ultimately show "length (Eb (update_beta sp hp X s)) = length X"
    and "length (Elogb (update_beta sp hp X s)) = length X"
    by (simp_all add: update_beta_Eb update_beta_Elogb mat_div_def mat_sub_def mat_map_def)
qed

lemma cycle_rows:
  assumes "length (Eb s) = length X \<and> length (Elogb s) = length X"
  shows "length (Eb (cycle sp hp X upd_beta s)) = length X \<and>
         length (Elogb (cycle sp hp X upd_beta s)) = length X"
  using assms by (simp add: cycle_def Let_def update_beta_rows gradient_updates_keep_beta)

lemma update_loop_rows:
  "length (Eb s) = length X \<and> length (Elogb s) = length X \<Longrightarrow>
   length (Eb (snd (update_loop sp hp X upd_beta n elbo_old s))) = length X \<and>
   length (Elogb (snd (update_loop sp hp X upd_beta n elbo_old s))) = length X"
proof (induction n arbitrary: elbo_old s)
  case 0
  then show ?case by simp
next
  case (Suc n)
  from cycle_rows [OF Suc.prems] Suc.IH show ?case
    by (simp add: Let_def split: prod.splits) (metis snd_conv)
qed

lemma fit_store:
  "store (fit sp dr self X) =
     Some (update sp (params self) X True
       (init_qu dr (ncols X) (init_ql dr (ncols X)
          (init_qbeta sp dr (case store self of None \<Rightarrow> empty_store | Some s \<Rightarrow> s)))))"
  by (simp add: fit_def Let_def)

lemma fit_rows:
  assumes "length (gamma_g dr) = length X" "length (gamma_h dr) = length X"
  shows "\<exists>s. store (fit sp dr self X) = Some s \<and> length (Eb s) = length X"
proof -
  let ?s0 = "case store self of None \<Rightarrow> empty_store | Some s \<Rightarrow> s"
  let ?s3 = "init_qu dr (ncols X) (init_ql dr (ncols X) (init_qbeta sp dr ?s0))"
  have "length (Eb ?s3) = length X \<and> length (Elogb ?s3) = length X"
    using assms
    by (simp add: init_qu_def init_ql_def init_qbeta_def compute_expectations_def Let_def
        mat_div_def mat_sub_def mat_map_def)
  then have "length (Eb (update sp (params self) X True ?s3)) = length X"
    unfolding update_def by (simp add: update_loop_rows)
  then show ?thesis
    by (simp add: fit_store)
qed

lemma fit_expectations_ok:
  "\<exists>s. store (fit sp dr self X) = Some s \<and> expectations_ok sp s"
proof -
  let ?s0 = "case store self of None \<Rightarrow> empty_store | Some s \<Rightarrow> s"
  have "expectations_ok sp (init_qu dr (ncols X) (init_ql dr (ncols X) (init_qbeta sp dr ?s0)))"
    using expectations_ok_init_qbeta [of sp dr ?s0]
    by (simp add: expectations_ok_def init_qu_def init_ql_def)
  then show ?thesis
    by (simp add: fit_store update_def expectations_ok_update_loop)
qed

subsection \<open>transform\<close>

lemma transform_fresh:
  "store self = None \<Longrightarrow>
   transform sp dr self X attr = (self, Inl (ValueError ''No beta initialized.''))"
  by (simp add: transform_def)

lemma transform_mismatch:
  "store self = Some s \<Longrightarrow> length (Eb s) \<noteq> length X \<Longrightarrow>
   transform sp dr self X attr = (self, Inl (ValueError ''Feature dim mismatch.''))"
  by (simp add: transform_def)

lemma transform_fitted:
  "store self = Some s \<Longrightarrow> length (Eb s) = length X \<Longrightarrow>
   transform sp dr self X attr = (self, Inl (TypeError ''_init_ql''))"
  by (simp add: transform_def call_init_ql_def)

subsection \<open>update_ql\<close>

lemma outer_is_mat: "is_mat (length a) (length b) (outer a b)"
  by (simp add: is_mat_def outer_def list_all_length)

lemma outer_nth: "i < length a \<Longrightarrow> j < length b \<Longrightarrow> outer a b ! i ! j = a ! i * b ! j"
  by (simp add: outer_def)

lemma ql_grad_matrix:
  assumes X: "is_mat nv nd X" and s: "shaped nv nk nm nd s" and k: "k < nk"
  defines "G \<equiv> mat_sub (mat_mul (mat_div X (auxsum s (theta_of s)))
                    (outer (map exp (column (Elogb s) k)) (map exp (theta_of s ! k))))
                  (outer (column (Eb s) k) (map exp (theta_of s ! k)))"
  shows "is_mat nv nd G" and "\<And>v d. v < nv \<Longrightarrow> d < nd \<Longrightarrow> G ! v ! d = ql_bracket nk nm X s k v d"
proof -
  from s have pos: "0 < nv" "0 < nk" "0 < nm" "0 < nd"
    and sh: "is_mat nv nk (Eb s)" "is_mat nv nk (Elogb s)" "is_mat nk nm (l s)"
      "is_mat nd nm (u s)" "is_vec nd (alpha s)"
    by (simp_all add: shaped_def)
  have th: "is_mat nk nd (theta_of s)"
    using sh pos by (intro theta_is_mat [of _ nm])
  have ax: "is_mat nv nd (auxsum s (theta_of s))"
    using sh th pos by (intro auxsum_is_mat [of _ nk])
  have xa: "is_mat nv nd (mat_div X (auxsum s (theta_of s)))"
    using X ax by (intro mat_ops_is_mat)
  have lens: "length (column (Elogb s) k) = nv" "length (column (Eb s) k) = nv"
    "length (theta_of s ! k) = nd"
    using sh th k by (simp_all add: length_column is_mat_length is_mat_row)
  have o1: "is_mat nv nd (outer (map exp (column (Elogb s) k)) (map exp (theta_of s ! k)))"
    using outer_is_mat [of "map exp (column (Elogb s) k)" "map exp (theta_of s ! k)"] lens by simp
  have o2: "is_mat nv nd (outer (column (Eb s) k) (map exp (theta_of s ! k)))"
    using outer_is_mat [of "column (Eb s) k" "map exp (theta_of s ! k)"] lens by simp
  have ml: "is_mat nv nd (mat_mul (mat_div X (auxsum s (theta_of s)))
                    (outer (map exp (column (Elogb s) k)) (map exp (theta_of s ! k))))"
    using xa o1 by (rule mat_ops_is_mat(3))
  show "is_mat nv nd G"
    unfolding G_def using ml o2 by (rule mat_ops_is_mat(2))
  fix v d assume v: "v < nv" and d: "d < nd"
  have 1: "mat_div X (auxsum s (theta_of s)) ! v ! d = X ! v ! d / auxsum_at nk nm s v d"
    using X ax v d sh pos
    by (simp add: mat_ops_nth [of nv nd] auxsum_theta_nth [of nv nk s nm nd])
  have 2: "outer (map exp (column (Elogb s) k)) (map exp (theta_of s ! k)) ! v ! d
      = exp (Elogb s ! v ! k) * exp (theta_at nm s k d)"
    using lens v d k sh pos
    by (simp add: outer_nth column_nth is_mat_length theta_nth [of nk nm s nd])
  have 3: "outer (column (Eb s) k) (map exp (theta_of s ! k)) ! v ! d
      = Eb s ! v ! k * exp (theta_at nm s k d)"
    using lens v d k sh pos
    by (simp add: outer_nth column_nth is_mat_length theta_nth [of nk nm s nd])
  show "G ! v ! d = ql_bracket nk nm X s k v d"
    unfolding G_def ql_bracket_def using ml o2 xa o1 v d
    by (simp add: mat_ops_nth [of nv nd] 1 2 3)
qed

lemma ql_grad_nth:
  assumes X: "is_mat nv nd X" and s: "shaped nv nk nm nd s" and k: "k < nk" and j: "j < nm"
  shows "ql_grad X s k ! j = (\<Sum>v<nv. \<Sum>d<nd. (ql_bracket nk nm X s k v d * u s ! d ! j - l s ! k ! j))"
proof -
  let ?G = "mat_sub (mat_mul (mat_div X (auxsum s (theta_of s)))
                    (outer (map exp (column (Elogb s) k)) (map exp (theta_of s ! k))))
                  (outer (column (Eb s) k) (map exp (theta_of s ! k)))"
  from s have pos: "0 < nv" "0 < nd" and sh: "is_mat nk nm (l s)" "is_mat nd nm (u s)"
    by (simp_all add: shaped_def)
  have G: "is_mat nv nd ?G"
    using X s k by (rule ql_grad_matrix(1))
  have Gn: "?G ! v ! d = ql_bracket nk nm X s k v d" if "v < nv" "d < nd" for v d
    using X s k that by (rule ql_grad_matrix(2))
  have lk: "is_vec nm (l s ! k)"
    using sh k by (simp add: is_vec_def is_mat_row)
  have B: "is_ten nv nd nm (bcast_mul3 ?G (u s))"
    using G sh by (intro bcast_mul3_is_ten)
  then have S: "is_ten nv nd nm (sub_last3 (bcast_mul3 ?G (u s)) (l s ! k))"
    using lk by (intro sub_last3_is_ten)
  have "ql_grad X s k ! j = sum_axes01 (sub_last3 (bcast_mul3 ?G (u s)) (l s ! k)) ! j"
    by (simp add: ql_grad_def Let_def)
  also have "\<dots> = (\<Sum>v<nv. \<Sum>d<nd. sub_last3 (bcast_mul3 ?G (u s)) (l s ! k) ! v ! d ! j)"
    using S pos j by (intro sum_axes01_nth)
  also have "\<dots> = (\<Sum>v<nv. \<Sum>d<nd. (ql_bracket nk nm X s k v d * u s ! d ! j - l s ! k ! j))"
  proof (intro sum.cong refl)
    fix v d assume "v \<in> {..<nv}" "d \<in> {..<nd}"
    then have v: "v < nv" and d: "d < nd" by simp_all
    have "sub_last3 (bcast_mul3 ?G (u s)) (l s ! k) ! v ! d ! j
        = bcast_mul3 ?G (u s) ! v ! d ! j - l s ! k ! j"
      using B lk v d j by (intro sub_last3_nth [of nv nd nm])
    also have "bcast_mul3 ?G (u s) ! v ! d ! j = ?G ! v ! d * u s ! d ! j"
      using G sh v d j by (intro bcast_mul3_nth [of nv nd _ nm])
    finally show "sub_last3 (bcast_mul3 ?G (u s)) (l s ! k) ! v ! d ! j
        = ql_bracket nk nm X s k v d * u s ! d ! j - l s ! k ! j"
      using Gn [OF v d] by simp
  qed
  finally show ?thesis .
qed

lemma ql_grad_length:
  assumes X: "is_mat nv nd X" and s: "shaped nv nk nm nd s" and k: "k < nk"
  shows "length (ql_grad X s k) = nm"
proof -
  let ?G = "mat_sub (mat_mul (mat_div X (auxsum s (theta_of s)))
                    (outer (map exp (column (Elogb s) k)) (map exp (theta_of s ! k))))
                  (outer (column (Eb s) k) (map exp (theta_of s ! k)))"
  from s have pos: "0 < nv" "0 < nd" and sh: "is_mat nk nm (l s)" "is_mat nd nm (u s)"
    by (simp_all add: shaped_def)
  have G: "is_mat nv nd ?G"
    using X s k by (rule ql_grad_matrix(1))
  have lk: "is_vec nm (l s ! k)"
    using sh k by (simp add: is_vec_def is_mat_row)
  have "is_ten nv nd nm (sub_last3 (bcast_mul3 ?G (u s)) (l s ! k))"
    using G sh lk by (intro sub_last3_is_ten bcast_mul3_is_ten)
  then have "length (sum_axes01 (sub_last3 (bcast_mul3 ?G (u s)) (l s ! k))) = nm"
    using pos by (rule sum_axes01_length)
  then show ?thesis
    by (simp add: ql_grad_def Let_def)
qed

lemma ql_rows_nth:
  "i < length l_temp \<Longrightarrow>
   ql_rows hp X s ks l_temp ! i = (if i \<in> set ks then ql_row hp X s i else l_temp ! i)"
  by (induction ks arbitrary: l_temp) (auto simp: nth_list_update)

lemma ql_rows_length: "length (ql_rows hp X s ks l_temp) = length l_temp"
  by (induction ks arbitrary: l_temp) simp_all

lemma ql_step_rows:
  assumes "length (l s) = K hp"
  shows "l (ql_step hp X s) = map (ql_row hp X s) [0..<K hp]"
proof (rule nth_equalityI)
  show "length (l (ql_step hp X s)) = length (map (ql_row hp X s) [0..<K hp])"
    using assms by (simp add: ql_step_def Let_def ql_rows_length zeros_def)
next
  fix i assume "i < length (l (ql_step hp X s))"
  then have "i < K hp"
    using assms by (simp add: ql_step_def Let_def ql_rows_length zeros_def)
  then show "l (ql_step hp X s) ! i = map (ql_row hp X s) [0..<K hp] ! i"
    using assms by (simp add: ql_step_def Let_def ql_rows_nth zeros_def)
qed

lemma update_ql_funpow: "update_ql_loop n hp X s = (ql_step hp X ^^ n) s"
  by (induction n arbitrary: s) (simp_all add: funpow_swap1)

lemma ql_row_nth:
  assumes X: "is_mat nv nd X" and s: "shaped nv nk nm nd s" and k: "k < nk" and j: "j < nm"
  shows "ql_row hp X s k ! j = l s ! k ! j + step_size hp * ql_grad X s k ! j"
proof -
  have "length (l s ! k) = nm"
    using s k by (simp add: shaped_def is_mat_row [of nk nm])
  moreover have "length (ql_grad X s k) = nm"
    using X s k by (rule ql_grad_length)
  ultimately show ?thesis
    using j by (simp add: ql_row_def vec_add_def vec_scale_def)
qed

subsection \<open>The example inputs\<close>

lemma shaped_ex: "shaped (Suc 0) (Suc 0) (Suc 0) (Suc (Suc 0)) s_ex"
  by (simp add: shaped_def s_ex_def is_mat_def is_vec_def)

lemma X_ex_is_mat: "is_mat (Suc 0) (Suc (Suc 0)) X_ex"
  by (simp add: X_ex_def is_mat_def)

lemma theta_at_ex: "theta_at (Suc 0) s_ex 0 0 = 0" "theta_at (Suc 0) s_ex 0 (Suc 0) = 0"
  by (simp_all add: theta_at_def s_ex_def)

lemma auxsum_at_ex:
  "auxsum_at (Suc 0) (Suc 0) s_ex 0 0 = 1" "auxsum_at (Suc 0) (Suc 0) s_ex 0 (Suc 0) = 1"
  by (simp_all add: auxsum_at_def theta_at_ex) (simp_all add: s_ex_def)

lemma ql_grad_ex: "ql_grad X_ex s_ex 0 = [1]"
  by (simp add: ql_grad_def X_ex_def s_ex_def theta_of_def add_row_def dot_def mat_T_def ncols_def
      column_def vdot_def upt_rec auxsum_def mat_map_def mat_div_def mat_mul_def outer_def
      mat_sub_def sum_axes01_def sub_last3_def bcast_mul3_def sum_axis0_def)

lemma ql_bracket_ex:
  "ql_bracket (Suc 0) (Suc 0) X_ex s_ex 0 0 0 = 2" "ql_bracket (Suc 0) (Suc 0) X_ex s_ex 0 0 (Suc 0) = 1"
  by (simp_all add: ql_bracket_def auxsum_at_ex theta_at_ex) (simp_all add: X_ex_def s_ex_def)

lemma ql_row_seq_0: "ql_row hp_seq X_seq s_seq 0 = [1]"
  by (simp add: ql_row_def ql_grad_def hp_seq_def hp_ex_def X_seq_def s_seq_def theta_of_def
      add_row_def dot_def mat_T_def ncols_def vec_add_def vec_scale_def
      column_def vdot_def upt_rec auxsum_def mat_map_def mat_div_def mat_mul_def outer_def
      mat_sub_def sum_axes01_def sub_last3_def bcast_mul3_def sum_axis0_def)

lemma ql_row_seq_1: "ql_row hp_seq X_seq s_seq (Suc 0) = [1]"
  by (simp add: ql_row_def ql_grad_def hp_seq_def hp_ex_def X_seq_def s_seq_def theta_of_def
      add_row_def dot_def mat_T_def ncols_def vec_add_def vec_scale_def
      column_def vdot_def upt_rec auxsum_def mat_map_def mat_div_def mat_mul_def outer_def
      mat_sub_def sum_axes01_def sub_last3_def bcast_mul3_def sum_axis0_def)

lemma ql_row_seq_1_after_0:
  "ql_row hp_seq X_seq (s_seq\<lparr>l := (l s_seq)[0 := [1]]\<rparr>) (Suc 0) = [4 / (exp 1 + 1) - 1]"
  by (simp add: ql_row_def ql_grad_def hp_seq_def hp_ex_def X_seq_def s_seq_def theta_of_def
      add_row_def dot_def mat_T_def ncols_def vec_add_def vec_scale_def
      column_def vdot_def upt_rec auxsum_def mat_map_def mat_div_def mat_mul_def outer_def
      mat_sub_def sum_axes01_def sub_last3_def bcast_mul3_def sum_axis0_def)

lemma K_seq: "K hp_seq = Suc (Suc 0)" "length (l s_seq) = K hp_seq"
  by (simp_all add: hp_seq_def s_seq_def)

lemma ql_step_seq: "l (ql_step hp_seq X_seq s_seq) = [[1], [1]]"
  by (simp add: ql_step_rows K_seq ql_row_seq_0 ql_row_seq_1 upt_rec)

lemma ql_step_sequential_seq:
  "l (ql_step_sequential hp_seq X_seq s_seq) = [[1], [4 / (exp 1 + 1) - 1]]"
proof -
  have "ql_step_sequential hp_seq X_seq s_seq
      = ql_rows_sequential hp_seq X_seq [0, Suc 0] s_seq"
    by (simp add: ql_step_sequential_def K_seq upt_rec)
  also have "\<dots> = (s_seq\<lparr>l := (l s_seq)[0 := [1]]\<rparr>)
      \<lparr>l := (l (s_seq\<lparr>l := (l s_seq)[0 := [1]]\<rparr>))[Suc 0 := [4 / (exp 1 + 1) - 1]]\<rparr>"
    by (simp add: ql_row_seq_0 ql_row_seq_1_after_0)
  finally show ?thesis
    by (simp add: s_seq_def)
qed

section \<open>The claims\<close>

text \<open>
  C1, as amended. After the beta update on \<open>X\<close> the new \<open>g\<close> has the entries
  \<open>c0 / V + exp(Elogb[v, k]) * (\<Sum>d. X[v, d] / auxsum[v, d] * exp(theta[k, d]))\<close>, the new \<open>h\<close>
  is one row vector tiled to \<open>V\<close> rows whose entry \<open>k\<close> is \<open>c0\<close> plus the sum of row \<open>k\<close> of
  \<open>exp(theta)\<close> (the sum over the columns \<open>d\<close>), and \<open>Eb\<close>, \<open>Elogb\<close> are recomputed from
  the new \<open>g\<close> and \<open>h\<close>; \<open>theta\<close> is \<open>alpha\<close> added to every row of \<open>l u\<^sup>T\<close> and \<open>auxsum\<close> is
  \<open>exp(Elogb) exp(theta)\<close>, both taken at the store the update starts from.
\<close>

theorem update_beta_formula:
  assumes "is_mat nv nd X" and "shaped nv nk nm nd s"
  shows "(\<forall>v<nv. \<forall>k<nk.
            g (update_beta sp hp X s) ! v ! k =
              c0 hp / real nv
              + exp (Elogb s ! v ! k)
                * (\<Sum>d<nd. X ! v ! d / auxsum_at nk nm s v d * exp (theta_at nm s k d))
            \<and> h (update_beta sp hp X s) ! v ! k = c0 hp + (\<Sum>d<nd. exp (theta_at nm s k d)))
         \<and> is_mat nv nk (g (update_beta sp hp X s))
         \<and> h (update_beta sp hp X s) = replicate nv (h (update_beta sp hp X s) ! 0)
         \<and> is_vec nk (h (update_beta sp hp X s) ! 0)
         \<and> (Eb (update_beta sp hp X s), Elogb (update_beta sp hp X s))
             = compute_expectations sp (g (update_beta sp hp X s)) (h (update_beta sp hp X s))"
proof -
  from assms have nv: "0 < nv" "length X = nv"
    by (simp_all add: shaped_def is_mat_length)
  have hm: "is_mat nv nk (h (update_beta sp hp X s))"
    using assms by (rule update_beta_h_is_mat)
  have rep: "h (update_beta sp hp X s) = replicate nv (h (update_beta sp hp X s) ! 0)"
    using nv by (simp add: update_beta_h tile_rows_def)
  have "is_vec nk (h (update_beta sp hp X s) ! 0)"
    using hm nv by (simp add: is_vec_def is_mat_row)
  with rep assms show ?thesis
    by (simp add: update_beta_g_nth update_beta_h_nth update_beta_g_is_mat
        compute_expectations_def update_beta_Eb [symmetric] update_beta_Elogb [symmetric])
qed

text \<open>The amended formula at the example input: \<open>g = 0.1 + 3 + 2\<close> and \<open>h = 0.1 + 2\<close>.\<close>

theorem update_beta_formula_witness:
  "is_mat (Suc 0) (Suc (Suc 0)) X_ex \<and> shaped (Suc 0) (Suc 0) (Suc 0) (Suc (Suc 0)) s_ex
   \<and> g (update_beta sp_ex hp_ex X_ex s_ex) = [[51 / 10]]
   \<and> h (update_beta sp_ex hp_ex X_ex s_ex) = [[21 / 10]]"
proof -
  note t = update_beta_formula [OF X_ex_is_mat shaped_ex, of sp_ex hp_ex]
  from t have e: "g (update_beta sp_ex hp_ex X_ex s_ex) ! 0 ! 0 = 51 / 10"
    by (simp add: theta_at_ex auxsum_at_ex) (simp add: X_ex_def s_ex_def hp_ex_def)
  from t have "is_mat (Suc 0) (Suc 0) (g (update_beta sp_ex hp_ex X_ex s_ex))"
    by simp
  from is_mat_11 [OF this] have G: "g (update_beta sp_ex hp_ex X_ex s_ex) = [[51 / 10]]"
    unfolding e .
  from t have "h (update_beta sp_ex hp_ex X_ex s_ex) ! 0 ! 0 = 21 / 10"
    by (simp add: theta_at_ex) (simp add: hp_ex_def)
  moreover from t have "h (update_beta sp_ex hp_ex X_ex s_ex) = [h (update_beta sp_ex hp_ex X_ex s_ex) ! 0]"
    and "length (h (update_beta sp_ex hp_ex X_ex s_ex) ! 0) = Suc 0"
    by (simp_all add: is_vec_def)
  ultimately have H: "h (update_beta sp_ex hp_ex X_ex s_ex) = [[21 / 10]]"
    by (metis length_0_conv length_Suc_conv nth_Cons_0)
  show ?thesis
    using G H X_ex_is_mat shaped_ex by simp
qed

text \<open>
  C1 as stated takes the column sums of \<open>exp(theta)\<close> for \<open>h\<close>. With \<open>K = D = 2\<close>,
  \<open>l = 0\<close> and \<open>alpha = [0, ln 2]\<close> the matrix \<open>exp(theta)\<close> is \<open>[[1, 2], [1, 2]]\<close>: its rows
  sum to \<open>3\<close> and \<open>3\<close>, its columns to \<open>2\<close> and \<open>4\<close>, and the update stores the former.
\<close>

theorem update_beta_h_counterexample:
  "h (update_beta sp_ex hp_ex2 X_ex2 s_ex2) = [[31 / 10, 31 / 10]] \<and>
   update_beta_h_colsums hp_ex2 X_ex2 s_ex2 = [[21 / 10, 41 / 10]] \<and>
   h (update_beta sp_ex hp_ex2 X_ex2 s_ex2) \<noteq> update_beta_h_colsums hp_ex2 X_ex2 s_ex2"
  by (simp add: update_beta_h update_beta_h_colsums_def hp_ex2_def hp_ex_def X_ex2_def s_ex2_def
      theta_of_def add_row_def dot_def mat_T_def ncols_def column_def vdot_def upt_rec
      mat_map_def tile_rows_def sum_axis1_def sum_axis0_def)

text \<open>
  C2, as amended. In an inner step of the l update the gradient of row \<open>k\<close> is the sum over
  all \<open>(v, d)\<close> of the bracket
  \<open>X / auxsum * exp(Elogb_k) * exp(theta_k) - Eb_k * exp(theta_k)\<close> times \<open>u_d\<close> minus \<open>l_k\<close>:
  \<open>l_k\<close> is taken off inside the sum, once for every pair \<open>(v, d)\<close>, that is \<open>V * D\<close> times
  in all. The row is then set to \<open>l_k + step_size * gradient\<close>.
\<close>

theorem ql_gradient_prior_term:
  assumes "is_mat nv nd X" and "shaped nv nk nm nd s" and "K hp = nk" and "k < nk" and "j < nm"
  shows "ql_grad X s k ! j
           = (\<Sum>v<nv. \<Sum>d<nd. ql_bracket nk nm X s k v d * u s ! d ! j) - real (nv * nd) * l s ! k ! j
         \<and> l (ql_step hp X s) ! k ! j = l s ! k ! j + step_size hp * ql_grad X s k ! j"
proof
  have "ql_grad X s k ! j = (\<Sum>v<nv. \<Sum>d<nd. (ql_bracket nk nm X s k v d * u s ! d ! j - l s ! k ! j))"
    using assms by (intro ql_grad_nth)
  also have "\<dots> = (\<Sum>v<nv. \<Sum>d<nd. ql_bracket nk nm X s k v d * u s ! d ! j)
      - (\<Sum>v<nv. \<Sum>d<nd. l s ! k ! j)"
    by (simp add: sum_subtractf)
  also have "(\<Sum>v<nv. \<Sum>d<nd. l s ! k ! j) = real (nv * nd) * l s ! k ! j"
    by simp
  finally show "ql_grad X s k ! j
      = (\<Sum>v<nv. \<Sum>d<nd. ql_bracket nk nm X s k v d * u s ! d ! j) - real (nv * nd) * l s ! k ! j" .
  have "length (l s) = K hp"
    using assms by (simp add: shaped_def is_mat_length [of nk nm])
  then have "l (ql_step hp X s) ! k = ql_row hp X s k"
    using assms by (simp add: ql_step_rows)
  then show "l (ql_step hp X s) ! k ! j = l s ! k ! j + step_size hp * ql_grad X s k ! j"
    using assms ql_row_nth [of nv nd X nk nm s k j hp] by simp
qed

text \<open>
  At the example input (\<open>V = 1\<close>, \<open>D = 2\<close>, brackets \<open>2\<close> and \<open>1\<close>, \<open>u = [[1], [1]]\<close>,
  \<open>l = [[1]]\<close>, step size \<open>0.1\<close>) the gradient is \<open>(2 + 1) - 2 * 1\<close> and the new row
  is \<open>1.1\<close>.
\<close>

theorem ql_gradient_prior_term_witness:
  "is_mat (Suc 0) (Suc (Suc 0)) X_ex \<and> shaped (Suc 0) (Suc 0) (Suc 0) (Suc (Suc 0)) s_ex
   \<and> K hp_ex = Suc 0
   \<and> ql_grad X_ex s_ex 0 ! 0 = (2 * 1 + 1 * 1) - 2 * 1
   \<and> l (ql_step hp_ex X_ex s_ex) ! 0 ! 0 = 11 / 10"
proof -
  have kk: "K hp_ex = Suc 0" by (simp add: hp_ex_def)
  note t = ql_gradient_prior_term [OF X_ex_is_mat shaped_ex kk, of 0 0]
  from t have a: "ql_grad X_ex s_ex 0 ! 0 = (2 * 1 + 1 * 1) - 2 * 1"
    by (simp add: ql_bracket_ex) (simp add: s_ex_def)
  from t a have b: "l (ql_step hp_ex X_ex s_ex) ! 0 ! 0 = 11 / 10"
    by (simp add: s_ex_def hp_ex_def)
  from a b kk X_ex_is_mat shaped_ex show ?thesis by blast
qed

text \<open>
  C2 as stated subtracts \<open>l_k\<close> once. At the example input that gradient would be
  \<open>(2 + 1) - 1 = 2\<close>; the method computes \<open>1\<close>.
\<close>

theorem ql_gradient_prior_once_counterexample:
  "ql_grad X_ex s_ex 0 = [1] \<and> ql_grad_prior_once X_ex s_ex 0 = [2] \<and>
   ql_grad X_ex s_ex 0 \<noteq> ql_grad_prior_once X_ex s_ex 0"
  by (simp add: ql_grad_ex)
    (simp add: ql_grad_prior_once_def X_ex_def s_ex_def theta_of_def add_row_def dot_def mat_T_def
      ncols_def column_def vdot_def upt_rec auxsum_def mat_map_def mat_div_def mat_mul_def outer_def
      mat_sub_def sum_axes01_def sub_last3_def bcast_mul3_def sum_axis0_def vec_sub_def)

text \<open>
  C4. For a fitted instance and an \<open>X\<close> with the fitted number of rows, \<open>transform\<close> is to
  reinitialise \<open>l\<close>, \<open>u\<close> and \<open>alpha\<close>, run the update loop without the beta update and
  return the attribute named by \<open>attr\<close>. The method passes both checks and then calls
  \<^verbatim>\<open>self._init_ql()\<close> without the argument \<open>D\<close> that \<^verbatim>\<open>_init_ql\<close> requires: the call
  raises \<^verbatim>\<open>TypeError\<close>, nothing is reinitialised, the update loop does not run and no
  attribute is returned. Evaluated on the instance fitted on \<open>X = [[3, 2]]\<close> and on an
  instance holding the example store.
\<close>

theorem transform_fitted_raises_TypeError:
  "transform sp_ex dr_ex (fit sp_ex dr_ex fresh_ex X_ex) X_ex ''l''
     = (fit sp_ex dr_ex fresh_ex X_ex, Inl (TypeError ''_init_ql'')) \<and>
   transform sp_ex dr_ex (fresh_ex\<lparr>store := Some s_ex\<rparr>) X_ex ''l''
     = (fresh_ex\<lparr>store := Some s_ex\<rparr>, Inl (TypeError ''_init_ql''))"
proof
  have "length (gamma_g dr_ex) = length X_ex" "length (gamma_h dr_ex) = length X_ex"
    by (simp_all add: dr_ex_def X_ex_def)
  then obtain s where "store (fit sp_ex dr_ex fresh_ex X_ex) = Some s" "length (Eb s) = length X_ex"
    using fit_rows [of dr_ex X_ex sp_ex fresh_ex] by auto
  then show "transform sp_ex dr_ex (fit sp_ex dr_ex fresh_ex X_ex) X_ex ''l''
     = (fit sp_ex dr_ex fresh_ex X_ex, Inl (TypeError ''_init_ql''))"
    by (rule transform_fitted)
  show "transform sp_ex dr_ex (fresh_ex\<lparr>store := Some s_ex\<rparr>) X_ex ''l''
     = (fresh_ex\<lparr>store := Some s_ex\<rparr>, Inl (TypeError ''_init_ql''))"
    by (rule transform_fitted [of _ s_ex]) (simp_all add: s_ex_def X_ex_def)
qed

text \<open>
  C5. The alpha update sets, for every column \<open>d\<close> of \<open>X\<close>, \<open>alpha[d]\<close> to the logarithm of
  the sum of column \<open>d\<close> of \<open>X\<close> minus the logarithm of the sum over all \<open>v\<close> and \<open>k\<close> of
  \<open>Eb[v, k] * exp((l u\<^sup>T)[k, d])\<close>; the new \<open>alpha\<close> has one entry for every column.
  (Where a sum is positive \<open>ln\<close> is numpy's logarithm; numpy gives \<open>-\<infinity>\<close> for the logarithm
  of a zero sum, which the real numbers of the model do not have.)
\<close>

theorem update_alpha_formula:
  assumes "is_mat nv nd X" and "is_mat nv nk (Eb s)" and "is_mat nk nm (l s)"
    and "is_mat nd nm (u s)" and "0 < nv" and "0 < nk" and "0 < nm" and "0 < nd"
  shows "length (alpha (update_alpha X s)) = nd \<and>
         (\<forall>d<nd. alpha (update_alpha X s) ! d =
            ln (\<Sum>v<nv. X ! v ! d)
            - ln (\<Sum>v<nv. \<Sum>k<nk. Eb s ! v ! k * exp (\<Sum>j<nm. l s ! k ! j * u s ! d ! j)))"
  using assms update_alpha_nth [of nv nd X nk s nm] update_alpha_length [of nv nd X nk s nm]
  by (simp add: is_vec_def)

text \<open>The formula at the example input: \<open>X = [[3, 2]]\<close>, \<open>Eb = [[1]]\<close>, \<open>l = [[1]]\<close>, \<open>u = [[1], [1]]\<close>.\<close>

theorem update_alpha_formula_witness:
  "is_mat (Suc 0) (Suc (Suc 0)) X_ex \<and> is_mat (Suc 0) (Suc 0) (Eb s_ex)
   \<and> is_mat (Suc 0) (Suc 0) (l s_ex) \<and> is_mat (Suc (Suc 0)) (Suc 0) (u s_ex)
   \<and> alpha (update_alpha X_ex s_ex) = [ln 3 - 1, ln 2 - 1]"
proof -
  have sh: "is_mat (Suc 0) (Suc 0) (Eb s_ex)" "is_mat (Suc 0) (Suc 0) (l s_ex)"
    "is_mat (Suc (Suc 0)) (Suc 0) (u s_ex)"
    by (simp_all add: s_ex_def is_mat_def)
  have "length (alpha (update_alpha X_ex s_ex)) = Suc (Suc 0) \<and>
        (\<forall>d<Suc (Suc 0). alpha (update_alpha X_ex s_ex) ! d =
            ln (\<Sum>v<Suc 0. X_ex ! v ! d)
            - ln (\<Sum>v<Suc 0. \<Sum>k<Suc 0. Eb s_ex ! v ! k * exp (\<Sum>j<Suc 0. l s_ex ! k ! j * u s_ex ! d ! j)))"
    using update_alpha_formula [OF X_ex_is_mat sh] by simp
  then have "length (alpha (update_alpha X_ex s_ex)) = 2"
    and "alpha (update_alpha X_ex s_ex) ! 0 = ln 3 - 1"
    and "alpha (update_alpha X_ex s_ex) ! 1 = ln 2 - 1"
    by (simp_all add: X_ex_def s_ex_def)
  then have "alpha (update_alpha X_ex s_ex) = [ln 3 - 1, ln 2 - 1]"
    by (intro nth_equalityI) (auto simp: less_Suc_eq numeral_2_eq_2)
  then show ?thesis
    using X_ex_is_mat sh by simp
qed

text \<open>
  C6, as amended. In an inner step of the l update \<open>theta\<close> and \<open>auxsum\<close> are computed
  again for every \<open>k\<close>, but from the \<open>l\<close> the step started with: the new rows go to
  \<^verbatim>\<open>l_temp\<close> and \<open>l\<close> is replaced only after the loop over \<open>k\<close>. Every new row is the row
  computed from the store at the start of the step, and the update is \<open>num_steps\<close> such
  steps.
\<close>

theorem ql_step_synchronous:
  assumes "length (l s) = K hp"
  shows "l (ql_step hp X s) = map (ql_row hp X s) [0..<K hp]
         \<and> update_ql hp X s = (ql_step hp X ^^ num_steps hp) s"
  using assms by (simp add: ql_step_rows update_ql_def update_ql_funpow)

text \<open>
  At the example input (\<open>K = 2\<close>, \<open>X = [[4]]\<close>, \<open>l = [[0], [0]]\<close>, \<open>u = [[1]]\<close>, step size
  \<open>1\<close>) both rows become \<open>1\<close>.
\<close>

theorem ql_step_synchronous_witness:
  "length (l s_seq) = K hp_seq \<and> l (ql_step hp_seq X_seq s_seq) = [[1], [1]]"
  using ql_step_synchronous [of s_seq hp_seq X_seq]
  by (simp add: K_seq ql_row_seq_0 ql_row_seq_1 upt_rec)

text \<open>
  C6 as stated has the gradient of row \<open>1\<close> see the update of row \<open>0\<close>. At the example
  input that would make row \<open>1\<close> equal to \<open>4 / (e + 1) - 1\<close>; the method gives \<open>1\<close>.
\<close>

theorem ql_step_sequential_counterexample:
  "l (ql_step hp_seq X_seq s_seq) = [[1], [1]] \<and>
   l (ql_step_sequential hp_seq X_seq s_seq) = [[1], [4 / (exp 1 + 1) - 1]] \<and>
   l (ql_step hp_seq X_seq s_seq) \<noteq> l (ql_step_sequential hp_seq X_seq s_seq)"
proof -
  have "exp (1::real) \<noteq> 1" by simp
  moreover have "0 < exp (1::real) + 1" by (simp add: add_pos_pos)
  ultimately have "4 / (exp 1 + 1) \<noteq> (2::real)"
    by (simp add: divide_eq_eq)
  then have "4 / (exp 1 + 1) - 1 \<noteq> (1::real)"
    by linarith
  then show ?thesis
    by (simp add: ql_step_seq ql_step_sequential_seq)
qed

text \<open>
  C7. The beta update and \<^verbatim>\<open>_init_qbeta\<close>, the two methods that assign \<open>g\<close> and \<open>h\<close>, leave
  \<open>Eb = g / h\<close> and \<open>Elogb = psi(g) - log(h)\<close>, entry by entry; the alpha, l and u updates
  change none of \<open>g\<close>, \<open>h\<close>, \<open>Eb\<close>, \<open>Elogb\<close>; so a pass of the loop, the whole loop and \<open>fit\<close>
  keep the two expectations equal to what \<^verbatim>\<open>_compute_expectations\<close> gives on the current
  \<open>g\<close> and \<open>h\<close>.
\<close>

theorem expectations_never_stale:
  "expectations_ok sp (update_beta sp hp X s) \<and>
   expectations_ok sp (init_qbeta sp dr s) \<and>
   g (update_qu hp X (update_ql hp X (update_alpha X s))) = g s \<and>
   h (update_qu hp X (update_ql hp X (update_alpha X s))) = h s \<and>
   Eb (update_qu hp X (update_ql hp X (update_alpha X s))) = Eb s \<and>
   Elogb (update_qu hp X (update_ql hp X (update_alpha X s))) = Elogb s \<and>
   (expectations_ok sp s \<longrightarrow>
      expectations_ok sp (cycle sp hp X upd_beta s) \<and>
      expectations_ok sp (update sp hp X upd_beta s)) \<and>
   (\<exists>s'. store (fit sp dr self X) = Some s' \<and> expectations_ok sp s') \<and>
   (is_mat nv nd X \<and> shaped nv nk nm nd s \<longrightarrow>
      (\<forall>v<nv. \<forall>k<nk.
         Eb (update_beta sp hp X s) ! v ! k
           = g (update_beta sp hp X s) ! v ! k / h (update_beta sp hp X s) ! v ! k \<and>
         Elogb (update_beta sp hp X s) ! v ! k
           = psi sp (g (update_beta sp hp X s) ! v ! k) - ln (h (update_beta sp hp X s) ! v ! k)))"
proof -
  have a: "expectations_ok sp s \<longrightarrow>
      expectations_ok sp (cycle sp hp X upd_beta s) \<and>
      expectations_ok sp (update sp hp X upd_beta s)"
    by (simp add: expectations_ok_cycle update_def expectations_ok_update_loop)
  have b: "Eb (update_beta sp hp X s) ! v ! k
           = g (update_beta sp hp X s) ! v ! k / h (update_beta sp hp X s) ! v ! k \<and>
         Elogb (update_beta sp hp X s) ! v ! k
           = psi sp (g (update_beta sp hp X s) ! v ! k) - ln (h (update_beta sp hp X s) ! v ! k)"
    if "is_mat nv nd X \<and> shaped nv nk nm nd s" "v < nv" "k < nk" for v k
  proof -
    from that(1) have X: "is_mat nv nd X" and s: "shaped nv nk nm nd s"
      by simp_all
    have G: "is_mat nv nk (g (update_beta sp hp X s))"
      using X s by (rule update_beta_g_is_mat)
    have H: "is_mat nv nk (h (update_beta sp hp X s))"
      using X s by (rule update_beta_h_is_mat)
    show ?thesis
      using G H that(2,3)
      by (simp add: update_beta_Eb [of sp hp X s] update_beta_Elogb [of sp hp X s]
          mat_ops_nth [of nv nk] mat_map_nth [of nv nk] mat_map_is_mat)
  qed
  from a b show ?thesis
    using expectations_ok_update_beta [of sp hp X s] expectations_ok_init_qbeta [of sp dr s]
      gradient_updates_keep_beta [of hp X s] fit_expectations_ok [of sp dr self X]
    by blast
qed

theorem expectations_never_stale_witness:
  "expectations_ok sp_ex (init_qbeta sp_ex dr_ex s_ex) \<and>
   expectations_ok sp_ex (update sp_ex hp_ex X_ex True (init_qbeta sp_ex dr_ex s_ex)) \<and>
   is_mat (Suc 0) (Suc (Suc 0)) X_ex \<and> shaped (Suc 0) (Suc 0) (Suc 0) (Suc (Suc 0)) s_ex \<and>
   Eb (update_beta sp_ex hp_ex X_ex s_ex) ! 0 ! 0
     = g (update_beta sp_ex hp_ex X_ex s_ex) ! 0 ! 0 / h (update_beta sp_ex hp_ex X_ex s_ex) ! 0 ! 0 \<and>
   Elogb (update_beta sp_ex hp_ex X_ex s_ex) ! 0 ! 0
     = psi sp_ex (g (update_beta sp_ex hp_ex X_ex s_ex) ! 0 ! 0)
       - ln (h (update_beta sp_ex hp_ex X_ex s_ex) ! 0 ! 0)"
proof -
  have 0: "expectations_ok sp_ex (init_qbeta sp_ex dr_ex s_ex)"
    by (simp add: expectations_ok_def init_qbeta_def compute_expectations_def)
  from 0 expectations_never_stale [of sp_ex hp_ex X_ex "init_qbeta sp_ex dr_ex s_ex" dr_ex True]
  have 1: "expectations_ok sp_ex (update sp_ex hp_ex X_ex True (init_qbeta sp_ex dr_ex s_ex))"
    by blast
  from X_ex_is_mat shaped_ex
    expectations_never_stale [of sp_ex hp_ex X_ex s_ex dr_ex True fresh_ex "Suc 0" "Suc (Suc 0)" "Suc 0" "Suc 0"]
  have "\<forall>v<Suc 0. \<forall>k<Suc 0.
         Eb (update_beta sp_ex hp_ex X_ex s_ex) ! v ! k
           = g (update_beta sp_ex hp_ex X_ex s_ex) ! v ! k / h (update_beta sp_ex hp_ex X_ex s_ex) ! v ! k \<and>
         Elogb (update_beta sp_ex hp_ex X_ex s_ex) ! v ! k
           = psi sp_ex (g (update_beta sp_ex hp_ex X_ex s_ex) ! v ! k)
             - ln (h (update_beta sp_ex hp_ex X_ex s_ex) ! v ! k)"
    by blast
  with 0 1 X_ex_is_mat shaped_ex show ?thesis by simp
qed

text \<open>
  C9. \<open>transform\<close> on an instance that has never been fit raises the \<^verbatim>\<open>ValueError\<close>
  with the message \<^verbatim>\<open>No beta initialized.\<close>; on a fitted instance and an \<open>X\<close> whose number
  of rows is not the number of rows of \<open>Eb\<close> (which after \<open>fit\<close> is the number of rows of
  the matrix fitted) it raises the \<^verbatim>\<open>ValueError\<close> with the message
  \<^verbatim>\<open>Feature dim mismatch.\<close>. In both cases the instance is left as it was: the checks
  come before any update.
\<close>

theorem transform_checks:
  "(store self = None \<longrightarrow>
      transform sp dr self X attr = (self, Inl (ValueError ''No beta initialized.''))) \<and>
   (\<forall>s. store self = Some s \<and> length (Eb s) \<noteq> length X \<longrightarrow>
      transform sp dr self X attr = (self, Inl (ValueError ''Feature dim mismatch.''))) \<and>
   (length (gamma_g dr0) = length X0 \<and> length (gamma_h dr0) = length X0 \<and> length X \<noteq> length X0 \<longrightarrow>
      transform sp dr (fit sp dr0 self X0) X attr
        = (fit sp dr0 self X0, Inl (ValueError ''Feature dim mismatch.'')))"
proof (intro conjI allI impI)
  assume "store self = None"
  then show "transform sp dr self X attr = (self, Inl (ValueError ''No beta initialized.''))"
    by (rule transform_fresh)
next
  fix s assume "store self = Some s \<and> length (Eb s) \<noteq> length X"
  then show "transform sp dr self X attr = (self, Inl (ValueError ''Feature dim mismatch.''))"
    by (simp add: transform_mismatch)
next
  assume a: "length (gamma_g dr0) = length X0 \<and> length (gamma_h dr0) = length X0 \<and> length X \<noteq> length X0"
  then obtain s where "store (fit sp dr0 self X0) = Some s" "length (Eb s) = length X0"
    using fit_rows [of dr0 X0 sp self] by auto
  with a show "transform sp dr (fit sp dr0 self X0) X attr
        = (fit sp dr0 self X0, Inl (ValueError ''Feature dim mismatch.''))"
    by (intro transform_mismatch [of _ s]) simp_all
qed

text \<open>
  The three cases at example inputs: a fresh instance, an instance with a store of one
  row against a matrix of two rows, and the instance fitted on a matrix of one row
  against a matrix of two rows.
\<close>

theorem transform_checks_witness:
  "store fresh_ex = None \<and>
   transform sp_ex dr_ex fresh_ex X_ex ''l'' = (fresh_ex, Inl (ValueError ''No beta initialized.'')) \<and>
   store (fresh_ex\<lparr>store := Some s_ex\<rparr>) = Some s_ex \<and> length (Eb s_ex) \<noteq> length X_ex3 \<and>
   transform sp_ex dr_ex (fresh_ex\<lparr>store := Some s_ex\<rparr>) X_ex3 ''l''
     = (fresh_ex\<lparr>store := Some s_ex\<rparr>, Inl (ValueError ''Feature dim mismatch.'')) \<and>
   length (gamma_g dr_ex) = length X_ex \<and> length (gamma_h dr_ex) = length X_ex \<and>
   length X_ex3 \<noteq> length X_ex \<and>
   transform sp_ex dr_ex (fit sp_ex dr_ex fresh_ex X_ex) X_ex3 ''l''
     = (fit sp_ex dr_ex fresh_ex X_ex, Inl (ValueError ''Feature dim mismatch.''))"
proof -
  have 1: "store fresh_ex = None" by (simp add: fresh_ex_def)
  have 2: "store (fresh_ex\<lparr>store := Some s_ex\<rparr>) = Some s_ex \<and> length (Eb s_ex) \<noteq> length X_ex3"
    by (simp add: s_ex_def X_ex3_def)
  have 3: "length (gamma_g dr_ex) = length X_ex \<and> length (gamma_h dr_ex) = length X_ex \<and>
     length X_ex3 \<noteq> length X_ex"
    by (simp add: dr_ex_def X_ex_def X_ex3_def)
  from 1 transform_checks [of fresh_ex sp_ex dr_ex X_ex "''l''" dr_ex X_ex]
  have a: "transform sp_ex dr_ex fresh_ex X_ex ''l'' = (fresh_ex, Inl (ValueError ''No beta initialized.''))"
    by blast
  from 2 transform_checks [of "fresh_ex\<lparr>store := Some s_ex\<rparr>" sp_ex dr_ex X_ex3 "''l''" dr_ex X_ex]
  have b: "transform sp_ex dr_ex (fresh_ex\<lparr>store := Some s_ex\<rparr>) X_ex3 ''l''
     = (fresh_ex\<lparr>store := Some s_ex\<rparr>, Inl (ValueError ''Feature dim mismatch.''))"
    by blast
  from 3 transform_checks [of fresh_ex sp_ex dr_ex X_ex3 "''l''" dr_ex X_ex]
  have c: "transform sp_ex dr_ex (fit sp_ex dr_ex fresh_ex X_ex) X_ex3 ''l''
     = (fit sp_ex dr_ex fresh_ex X_ex, Inl (ValueError ''Feature dim mismatch.''))"
    by blast
  from 1 2 3 a b c show ?thesis by blast
qed

text \<open>
  C10. After a beta update \<open>h\<close> has as many rows as \<open>X\<close> and all of them are the same
  vector; on arrays of fitting shapes that vector has length \<open>K\<close> and its entry \<open>k\<close> is
  \<open>c0 + \<Sum>d. exp(theta[k, d])\<close>, which does not depend on the row.
\<close>

theorem update_beta_h_rows_identical:
  "length (h (update_beta sp hp X s)) = length X \<and>
   (\<forall>v<length X. \<forall>w<length X. h (update_beta sp hp X s) ! v = h (update_beta sp hp X s) ! w) \<and>
   (is_mat nv nd X \<and> shaped nv nk nm nd s \<longrightarrow>
      (\<forall>v<nv. length (h (update_beta sp hp X s) ! v) = nk \<and>
         (\<forall>k<nk. h (update_beta sp hp X s) ! v ! k = c0 hp + (\<Sum>d<nd. exp (theta_at nm s k d)))))"
proof (intro conjI allI impI)
  show "length (h (update_beta sp hp X s)) = length X"
    by (simp add: update_beta_h tile_rows_def)
next
  fix v w assume "v < length X" "w < length X"
  then show "h (update_beta sp hp X s) ! v = h (update_beta sp hp X s) ! w"
    by (simp add: update_beta_h tile_rows_def)
next
  fix v assume a: "is_mat nv nd X \<and> shaped nv nk nm nd s" and v: "v < nv"
  then show "length (h (update_beta sp hp X s) ! v) = nk"
    using update_beta_h_is_mat [of nv nd X nk nm s sp hp] by (simp add: is_mat_row)
next
  fix v k assume a: "is_mat nv nd X \<and> shaped nv nk nm nd s" and v: "v < nv" and k: "k < nk"
  then show "h (update_beta sp hp X s) ! v ! k = c0 hp + (\<Sum>d<nd. exp (theta_at nm s k d))"
    using update_beta_h_nth [of nv nd X nk nm s v k sp hp] by simp
qed

theorem update_beta_h_rows_identical_witness:
  "is_mat (Suc 0) (Suc (Suc 0)) X_ex \<and> shaped (Suc 0) (Suc 0) (Suc 0) (Suc (Suc 0)) s_ex
   \<and> 0 < length X_ex
   \<and> length (h (update_beta sp_ex hp_ex X_ex s_ex)) = 1
   \<and> length (h (update_beta sp_ex hp_ex X_ex s_ex) ! 0) = 1
   \<and> h (update_beta sp_ex hp_ex X_ex s_ex) ! 0 ! 0 = 21 / 10"
proof -
  note t = update_beta_h_rows_identical [of sp_ex hp_ex X_ex s_ex "Suc 0" "Suc (Suc 0)" "Suc 0" "Suc 0"]
  have n: "length X_ex = 1" by (simp add: X_ex_def)
  from t have len: "length (h (update_beta sp_ex hp_ex X_ex s_ex)) = length X_ex"
    by (rule conjunct1)
  from t X_ex_is_mat shaped_ex
  have "\<forall>v<Suc 0. length (h (update_beta sp_ex hp_ex X_ex s_ex) ! v) = Suc 0 \<and>
         (\<forall>k<Suc 0. h (update_beta sp_ex hp_ex X_ex s_ex) ! v ! k
            = c0 hp_ex + (\<Sum>d<Suc (Suc 0). exp (theta_at (Suc 0) s_ex k d)))"
    by blast
  then have "length (h (update_beta sp_ex hp_ex X_ex s_ex) ! 0) = 1"
    and "h (update_beta sp_ex hp_ex X_ex s_ex) ! 0 ! 0 = 21 / 10"
    by (simp_all add: theta_at_ex hp_ex_def)
  then show ?thesis
    using len n X_ex_is_mat shaped_ex by simp
qed

end
